theory Spec2Isabelle
  imports Complex_Main "HOL-Library.Sublist"
begin

section \<open>BottomTabView: the data the component reads\<close>

text \<open>
  The component is a function from its props and the values of its hooks to an element
  tree. The host framework's objects are modelled by the fields the component reads.
  A property that may be \<open>undefined\<close> is an \<open>option\<close>; reading a property of
  \<open>undefined\<close> raises a \<open>TypeError\<close>, which is the only failure of the component.
\<close>

datatype error = TypeError

datatype animation_name = Fade | Shift | NoAnimation

datatype animation_driver = Timing | Spring

text \<open>
  A transition spec names the driver (\<open>Animated.timing\<close> or \<open>Animated.spring\<close>) and
  carries the driver's configuration, here the list of its numeric settings.
\<close>

record transition_spec =
  spec_animation :: animation_driver
  spec_config :: "(string \<times> rat) list"

datatype scene_style_interpolator = SceneStyleInterpolator string

record transition_preset =
  preset_sceneStyleInterpolator :: "scene_style_interpolator option"
  preset_transitionSpec :: "transition_spec option"

datatype tab_bar_position = PositionBottom | PositionTop | PositionLeft | PositionRight

datatype tab_bar_style = TabBarStyle string

record options =
  lazy :: "bool option"
  unmountOnBlur :: "bool option"
  animation :: "animation_name option"
  transitionSpec :: "transition_spec option"
  sceneStyleInterpolator :: "scene_style_interpolator option"
  tabBarPosition :: "tab_bar_position option"
  tabBarStyle :: "tab_bar_style option"
  freezeOnBlur :: "bool option"

record route =
  key :: string
  name :: string

record descriptor =
  descriptor_options :: options
  descriptor_route :: route

record tab_navigation_state =
  routes :: "route list"
  index :: nat
  preloadedRouteKeys :: "string list"

section \<open>Constants of the module\<close>

definition EPSILON :: rat where
  "EPSILON = 1 / 100000"

definition STATE_INACTIVE :: nat where
  "STATE_INACTIVE = 0"

definition STATE_TRANSITIONING_OR_BELOW_TOP :: nat where
  "STATE_TRANSITIONING_OR_BELOW_TOP = 1"

definition STATE_ON_TOP :: nat where
  "STATE_ON_TOP = 2"

text \<open>
  \<open>FadeTransition\<close> and \<open>ShiftTransition\<close> are imported from another module; the
  table takes them as parameters. The entry for \<open>none\<close> is written in this module.
\<close>

record transition_presets =
  FadeTransition :: transition_preset
  ShiftTransition :: transition_preset

definition none_transitionSpec :: transition_spec where
  "none_transitionSpec = \<lparr>spec_animation = Timing, spec_config = [(''duration'', 0)]\<rparr>"

definition none_preset :: transition_preset where
  "none_preset =
     \<lparr>preset_sceneStyleInterpolator = None,
      preset_transitionSpec = Some none_transitionSpec\<rparr>"

definition NAMED_TRANSITIONS_PRESETS ::
  "transition_presets \<Rightarrow> animation_name \<Rightarrow> transition_preset" where
  "NAMED_TRANSITIONS_PRESETS ps a =
     (case a of
        Fade \<Rightarrow> FadeTransition ps
      | Shift \<Rightarrow> ShiftTransition ps
      | NoAnimation \<Rightarrow> none_preset)"

text \<open>
  \<open>hasAnimation\<close>: a named animation is truthy whatever its name, so the first branch
  is taken exactly when \<open>animation\<close> is set; a transition spec is an object, so
  \<open>!transitionSpec\<close> holds exactly when it is unset.
\<close>

definition hasAnimation :: "options \<Rightarrow> bool" where
  "hasAnimation opts =
     (case animation opts of
        Some a \<Rightarrow> a \<noteq> NoAnimation
      | None \<Rightarrow> transitionSpec opts = None)"

section \<open>The environment of the component\<close>

text \<open>
  What the component reads from other modules is a parameter of the model: the platform,
  the imported presets, the initial metrics of \<open>SafeAreaProviderCompat\<close>, the function
  \<open>getTabBarHeight\<close> of the tab bar module, the hook \<open>useAnimatedHashMap\<close> (the animated
  value of each route key) and the value of \<open>SafeAreaInsetsContext\<close>.
\<close>

datatype platform_os = Web | Android | Ios | Windows | Macos

datatype side = SideTop | SideRight | SideBottom | SideLeft

record layout =
  layout_width :: rat
  layout_height :: rat

record metrics =
  frame :: layout
  metrics_insets :: "side \<Rightarrow> rat"

datatype animated_value = AnimatedValue string

text \<open>
  An object whose properties may be absent is a map; a property that is present may
  still hold \<open>undefined\<close>, which matters to object spread (\<open>{...a, ...b}\<close> takes every own
  property of \<open>b\<close>, also an undefined one) and not to a read.
\<close>

type_synonym partial_insets = "side \<rightharpoonup> rat option"

record tab_bar_height_args =
  arg_state :: tab_navigation_state
  arg_descriptors :: "string \<rightharpoonup> descriptor"
  arg_dimensions :: layout
  arg_layout :: layout
  arg_insets :: partial_insets
  arg_style :: "tab_bar_style option"

record environment =
  platform_OS :: platform_os
  presets :: transition_presets
  initialMetrics :: metrics
  getTabBarHeight :: "tab_bar_height_args \<Rightarrow> rat"
  useAnimatedHashMap :: "tab_navigation_state \<Rightarrow> (string \<rightharpoonup> animated_value)"
  safeAreaInsetsContext :: "(side \<rightharpoonup> rat) option"

text \<open>
  The props. \<open>tabBar\<close>, \<open>navigation\<close> and \<open>sceneContainerStyle\<close> are handed on unchanged
  and are left out.
\<close>

record props =
  state :: tab_navigation_state
  descriptors :: "string \<rightharpoonup> descriptor"
  safeAreaInsets :: "partial_insets option"
  detachInactiveScreens :: "bool option"

text \<open>
  The values the component keeps between renders: the state \<open>loaded\<close>, the ref
  \<open>previousRouteKeyRef\<close> and the state \<open>tabBarHeight\<close>.
\<close>

record hooks =
  loaded :: "string list"
  previousRouteKeyRef :: string
  tabBarHeight :: rat

section \<open>The element tree\<close>

datatype extrapolate = Extend | Clamp | Identity

text \<open>
  The prop \<open>active\<close> of a screen is a number or an interpolation node over the route's
  animated value, given by its input range, its output range and its extrapolation.
\<close>

datatype activity_state =
    Constant nat
  | Interpolation animated_value "rat list" "nat list" extrapolate

text \<open>
  A mounted screen: the props of \<open>MaybeScreen\<close>, the value of the
  \<open>BottomTabBarHeightContext\<close> provider around the screen, and of the props of \<open>Screen\<close>
  the focus flag, the route and the scene style (the interpolator with the progress it
  is applied to). The header props and the rendered content are handed on from the
  descriptor unchanged and are left out.
\<close>

record screen_element =
  screen_key :: string
  zIndex :: int
  active :: activity_state
  enabled :: bool
  screen_freezeOnBlur :: "bool option"
  heightContext :: rat
  focused :: bool
  screen_route :: route
  sceneStyle :: "(scene_style_interpolator \<times> animated_value option) option"

record edge_insets =
  inset_top :: rat
  inset_right :: rat
  inset_bottom :: rat
  inset_left :: rat

record tab_bar_props =
  tab_bar_state :: tab_navigation_state
  tab_bar_descriptors :: "string \<rightharpoonup> descriptor"
  insets :: edge_insets

datatype state_setter = SetLoaded | SetTabBarHeight

datatype flex_direction = Row | RowReverse

record style =
  flexDirection :: flex_direction

definition styles_left :: style where
  "styles_left = \<lparr>flexDirection = RowReverse\<rparr>"

definition styles_right :: style where
  "styles_right = \<lparr>flexDirection = Row\<rparr>"

text \<open>
  The children of the root: the tab bar inside the provider of
  \<open>BottomTabBarHeightCallbackContext\<close> (with the provider's value), and the screen
  container with its props \<open>enabled\<close> and \<open>hasTwoStates\<close> and one child per route, which
  is \<open>None\<close> where the callback returns \<open>null\<close>.
\<close>

datatype element =
    HeightCallbackProvider state_setter tab_bar_props
  | MaybeScreenContainer bool bool "screen_element option list"

record view =
  root_style :: "style option"
  children :: "element option list"

section \<open>The component\<close>

text \<open>
  Nullish coalescing \<open>a ?? b\<close>, with an optional and with a defined right operand.
\<close>

definition nullish :: "'a option \<Rightarrow> 'a option \<Rightarrow> 'a option" where
  "nullish a b = (case a of Some v \<Rightarrow> Some v | None \<Rightarrow> b)"

definition nullish_default :: "'a option \<Rightarrow> 'a \<Rightarrow> 'a" where
  "nullish_default a d = (case a of Some v \<Rightarrow> v | None \<Rightarrow> d)"

text \<open>\<open>safeAreaInsets?.top\<close>: the prop itself may be undefined.\<close>

definition prop_inset :: "partial_insets option \<Rightarrow> side \<Rightarrow> rat option" where
  "prop_inset obj s =
     (case obj of
        None \<Rightarrow> None
      | Some m \<Rightarrow> (case m s of None \<Rightarrow> None | Some v \<Rightarrow> v))"

text \<open>\<open>insets?.top\<close>: the context's value may be \<open>null\<close>.\<close>

definition context_inset :: "(side \<rightharpoonup> rat) option \<Rightarrow> side \<Rightarrow> rat option" where
  "context_inset obj s = (case obj of None \<Rightarrow> None | Some m \<Rightarrow> m s)"

definition renderTabBar :: "environment \<Rightarrow> props \<Rightarrow> tab_bar_props" where
  "renderTabBar env p =
     (let insets = safeAreaInsetsContext env
      in \<lparr>tab_bar_state = state p,
          tab_bar_descriptors = descriptors p,
          insets =
            \<lparr>inset_top =
               nullish_default
                 (nullish (prop_inset (safeAreaInsets p) SideTop) (context_inset insets SideTop)) 0,
             inset_right =
               nullish_default
                 (nullish (prop_inset (safeAreaInsets p) SideRight) (context_inset insets SideRight)) 0,
             inset_bottom =
               nullish_default
                 (nullish (prop_inset (safeAreaInsets p) SideBottom) (context_inset insets SideBottom)) 0,
             inset_left =
               nullish_default
                 (nullish (prop_inset (safeAreaInsets p) SideLeft) (context_inset insets SideLeft)) 0\<rparr>\<rparr>)"

text \<open>\<open>state.routes[state.index].key\<close>: out of range, the route is undefined.\<close>

definition focusedRouteKey :: "tab_navigation_state \<Rightarrow> error + string" where
  "focusedRouteKey s =
     (if index s < length (routes s) then Inr (key (routes s ! index s)) else Inl TypeError)"

text \<open>\<open>descriptors[k].options\<close>\<close>

definition options_of :: "(string \<rightharpoonup> descriptor) \<Rightarrow> string \<Rightarrow> error + options" where
  "options_of ds k =
     (case ds k of None \<Rightarrow> Inl TypeError | Some d \<Rightarrow> Inr (descriptor_options d))"

text \<open>The initial value of the state \<open>tabBarHeight\<close>.\<close>

definition initialTabBarHeight :: "environment \<Rightarrow> props \<Rightarrow> error + rat" where
  "initialTabBarHeight env p =
     (case focusedRouteKey (state p) of
        Inl e \<Rightarrow> Inl e
      | Inr k \<Rightarrow>
          (case options_of (descriptors p) k of
             Inl e \<Rightarrow> Inl e
           | Inr opts \<Rightarrow>
               (let dimensions = frame (initialMetrics env)
                in Inr (getTabBarHeight env
                     \<lparr>arg_state = state p,
                      arg_descriptors = descriptors p,
                      arg_dimensions = dimensions,
                      arg_layout =
                        \<lparr>layout_width = layout_width dimensions, layout_height = 0\<rparr>,
                      arg_insets =
                        (\<lambda>s. Some (Some (metrics_insets (initialMetrics env) s)))
                          ++ (case safeAreaInsets p of None \<Rightarrow> Map.empty | Some m \<Rightarrow> m),
                      arg_style = tabBarStyle opts\<rparr>))))"

text \<open>
  The hooks of one render: on the first render (\<open>None\<close>) the states and the ref take
  their initial values, later they keep what they hold.
\<close>

definition useHooks :: "environment \<Rightarrow> props \<Rightarrow> hooks option \<Rightarrow> error + hooks" where
  "useHooks env p hk =
     (case hk of
        Some h \<Rightarrow> Inr h
      | None \<Rightarrow>
          (case focusedRouteKey (state p) of
             Inl e \<Rightarrow> Inl e
           | Inr k \<Rightarrow>
               (case initialTabBarHeight env p of
                  Inl e \<Rightarrow> Inl e
                | Inr h \<Rightarrow>
                    Inr \<lparr>loaded = [k], previousRouteKeyRef = k, tabBarHeight = h\<rparr>)))"

text \<open>\<open>routes.some(f)\<close> stops at the first route where \<open>f\<close> holds.\<close>

fun routes_some :: "(route \<Rightarrow> error + bool) \<Rightarrow> route list \<Rightarrow> error + bool" where
  "routes_some f [] = Inr False"
| "routes_some f (r # rs) =
     (case f r of
        Inl e \<Rightarrow> Inl e
      | Inr b \<Rightarrow> if b then Inr True else routes_some f rs)"

text \<open>\<open>routes.map((route, index) => ...)\<close>, from index \<open>i\<close> on.\<close>

fun routes_map :: "(route \<Rightarrow> nat \<Rightarrow> error + 'a) \<Rightarrow> nat \<Rightarrow> route list \<Rightarrow> error + 'a list" where
  "routes_map f i [] = Inr []"
| "routes_map f i (r # rs) =
     (case f r i of
        Inl e \<Rightarrow> Inl e
      | Inr x \<Rightarrow>
          (case routes_map f (Suc i) rs of
             Inl e \<Rightarrow> Inl e
           | Inr xs \<Rightarrow> Inr (x # xs)))"

text \<open>The activity state of a route that passed the two early returns.\<close>

definition activityState ::
  "(string \<rightharpoonup> animated_value) \<Rightarrow> route \<Rightarrow> bool \<Rightarrow> bool \<Rightarrow> error + activity_state" where
  "activityState tabAnims route isFocused animationEnabled =
     (if isFocused then Inr (Constant STATE_ON_TOP)
      else if animationEnabled then
        (case tabAnims (key route) of
           None \<Rightarrow> Inl TypeError
         | Some v \<Rightarrow>
             Inr (Interpolation v
                    [0, 1 - EPSILON, 1]
                    [STATE_TRANSITIONING_OR_BELOW_TOP,
                     STATE_TRANSITIONING_OR_BELOW_TOP,
                     STATE_INACTIVE]
                    Extend))
      else Inr (Constant STATE_INACTIVE))"

text \<open>The callback of \<open>routes.map\<close> in the screen container.\<close>

definition renderScreen ::
  "environment \<Rightarrow> props \<Rightarrow> string list \<Rightarrow> (string \<rightharpoonup> animated_value) \<Rightarrow>
   tab_bar_position \<Rightarrow> rat \<Rightarrow> bool \<Rightarrow> route \<Rightarrow> nat \<Rightarrow> error + screen_element option" where
  "renderScreen env p ld tabAnims position height detach route i =
     (case descriptors p (key route) of
        None \<Rightarrow> Inl TypeError
      | Some descriptor \<Rightarrow>
          (let opts = descriptor_options descriptor;
               lazy = nullish_default (lazy opts) True;
               animation = nullish_default (animation opts) NoAnimation;
               interpolator =
                 nullish (sceneStyleInterpolator opts)
                   (preset_sceneStyleInterpolator
                      (NAMED_TRANSITIONS_PRESETS (presets env) animation));
               isFocused = (index (state p) = i)
           in if unmountOnBlur opts = Some True \<and> \<not> isFocused then Inr None
              else if lazy \<and> key route \<notin> set ld \<and> \<not> isFocused
                      \<and> key route \<notin> set (preloadedRouteKeys (state p))
              then Inr None
              else
                (let animationEnabled = hasAnimation opts
                 in case activityState tabAnims route isFocused animationEnabled of
                      Inl e \<Rightarrow> Inl e
                    | Inr activity \<Rightarrow>
                        Inr (Some
                          \<lparr>screen_key = key route,
                           zIndex = (if isFocused then 0 else - 1),
                           active = activity,
                           enabled = detach,
                           screen_freezeOnBlur = freezeOnBlur opts,
                           heightContext =
                             (if position = PositionBottom then height else 0),
                           focused = isFocused,
                           screen_route = descriptor_route descriptor,
                           sceneStyle =
                             (if animationEnabled
                              then map_option (\<lambda>f. (f, tabAnims (key route))) interpolator
                              else None)\<rparr>))))"

text \<open>
  The default of the prop \<open>detachInactiveScreens\<close>, the default of the option
  \<open>tabBarPosition\<close>, the callback of \<open>routes.some\<close>, and the update of \<open>loaded\<close> that the
  render asks for.
\<close>

definition detachInactive :: "environment \<Rightarrow> props \<Rightarrow> bool" where
  "detachInactive env p =
     nullish_default (detachInactiveScreens p)
       (platform_OS env = Web \<or> platform_OS env = Android \<or> platform_OS env = Ios)"

definition position_of :: "options \<Rightarrow> tab_bar_position" where
  "position_of opts = nullish_default (tabBarPosition opts) PositionBottom"

definition routeHasAnimation :: "props \<Rightarrow> route \<Rightarrow> error + bool" where
  "routeHasAnimation p route =
     (case options_of (descriptors p) (key route) of
        Inl e \<Rightarrow> Inl e
      | Inr opts \<Rightarrow> Inr (hasAnimation opts))"

definition setLoadedIfAbsent :: "string \<Rightarrow> hooks \<Rightarrow> hooks" where
  "setLoadedIfAbsent focusedKey h =
     (if focusedKey \<notin> set (loaded h) then h\<lparr>loaded := loaded h @ [focusedKey]\<rparr> else h)"

text \<open>
  One render of \<open>BottomTabView\<close>: the hooks after it and the element tree it returns.
\<close>

definition BottomTabView :: "environment \<Rightarrow> props \<Rightarrow> hooks option \<Rightarrow> error + hooks \<times> view" where
  "BottomTabView env p hk =
     (case focusedRouteKey (state p) of
        Inl e \<Rightarrow> Inl e
      | Inr focusedKey \<Rightarrow>
     (case useHooks env p hk of
        Inl e \<Rightarrow> Inl e
      | Inr h \<Rightarrow>
     (let detach = detachInactive env p;
          h' = setLoadedIfAbsent focusedKey h;
          tabAnims = useAnimatedHashMap env (state p)
      in
     (case routes_some (routeHasAnimation p) (routes (state p)) of
        Inl e \<Rightarrow> Inl e
      | Inr anyAnimated \<Rightarrow>
     (case options_of (descriptors p) focusedKey of
        Inl e \<Rightarrow> Inl e
      | Inr focusedOptions \<Rightarrow>
     (let hasTwoStates = \<not> anyAnimated;
          position = position_of focusedOptions;
          tabBar = HeightCallbackProvider SetTabBarHeight (renderTabBar env p)
      in
     (case routes_map
             (renderScreen env p (loaded h) tabAnims position (tabBarHeight h) detach)
             0 (routes (state p)) of
        Inl e \<Rightarrow> Inl e
      | Inr screens \<Rightarrow>
          Inr (h',
               \<lparr>root_style =
                  (if position = PositionLeft then Some styles_left
                   else if position = PositionRight then Some styles_right
                   else None),
                children =
                  [if position = PositionTop then Some tabBar else None,
                   Some (MaybeScreenContainer detach hasTwoStates screens),
                   if position \<noteq> PositionTop then Some tabBar else None]\<rparr>))))))))"

section \<open>The effect and the life of the component\<close>

text \<open>
  An animation built by \<open>Animated.timing\<close> or \<open>Animated.spring\<close>: the driver, the
  animated value it is given (\<open>tabAnims[route.key]\<close>, which may be undefined) and the
  configuration object, that is the settings of the spec followed by \<open>toValue\<close> and
  \<open>useNativeDriver\<close>. The type of a spec's configuration has neither of these two
  properties, so the spread overrides nothing.
\<close>

record composite_animation =
  anim_driver :: animation_driver
  anim_value :: "animated_value option"
  anim_config :: "(string \<times> rat) list"
  toValue :: int
  useNativeDriver :: bool

text \<open>The callback of \<open>routes.map\<close> in \<open>animateToIndex\<close>.\<close>

definition animateRoute ::
  "environment \<Rightarrow> props \<Rightarrow> string \<Rightarrow> string \<Rightarrow> (string \<rightharpoonup> animated_value) \<Rightarrow>
   route \<Rightarrow> nat \<Rightarrow> error + composite_animation" where
  "animateRoute env p previousRouteKey focusedKey tabAnims route i =
     (case options_of (descriptors p) (key route) of
        Inl e \<Rightarrow> Inl e
      | Inr opts \<Rightarrow>
          (let animation = nullish_default (animation opts) NoAnimation;
               transitionSpec =
                 nullish (transitionSpec opts)
                   (preset_transitionSpec
                      (NAMED_TRANSITIONS_PRESETS (presets env) animation));
               spec = (if key route \<noteq> previousRouteKey \<and> key route \<noteq> focusedKey
                       then preset_transitionSpec none_preset
                       else transitionSpec);
               spec = nullish_default spec none_transitionSpec;
               toValue = (if i = index (state p) then 0
                          else if i \<ge> index (state p) then 1 else - 1)
           in Inr \<lparr>anim_driver = spec_animation spec,
                   anim_value = tabAnims (key route),
                   anim_config = spec_config spec,
                   toValue = toValue,
                   useNativeDriver = True\<rparr>))"

text \<open>
  \<open>animateToIndex\<close>: the animations handed to \<open>Animated.parallel\<close> and started. Every
  animation is an object, so \<open>filter(Boolean)\<close> keeps them all.
\<close>

definition animateToIndex ::
  "environment \<Rightarrow> props \<Rightarrow> string \<Rightarrow> string \<Rightarrow> error + composite_animation list" where
  "animateToIndex env p previousRouteKey focusedKey =
     routes_map
       (animateRoute env p previousRouteKey focusedKey (useAnimatedHashMap env (state p)))
       0 (routes (state p))"

text \<open>
  The effect of a render: it reads the ref, stores the focused key in it, and starts the
  animations. It yields the hooks after it and the animations started.
\<close>

definition effect ::
  "environment \<Rightarrow> props \<Rightarrow> hooks \<Rightarrow> error + hooks \<times> composite_animation list" where
  "effect env p h =
     (case focusedRouteKey (state p) of
        Inl e \<Rightarrow> Inl e
      | Inr focusedKey \<Rightarrow>
          (let previousRouteKey = previousRouteKeyRef h;
               h' = h\<lparr>previousRouteKeyRef := focusedKey\<rparr>
           in case animateToIndex env p previousRouteKey focusedKey of
                Inl e \<Rightarrow> Inl e
              | Inr animations \<Rightarrow> Inr (h', animations)))"

text \<open>
  What happens to a mounted component: it is rendered again with new props, the effect
  of a render runs, or \<open>setTabBarHeight\<close> is called with a height.
\<close>

datatype event = Render props | RunEffect props | SetTabBarHeightCalled rat

fun step :: "environment \<Rightarrow> hooks \<Rightarrow> event \<Rightarrow> error + hooks" where
  "step env h (Render p) =
     (case BottomTabView env p (Some h) of Inl e \<Rightarrow> Inl e | Inr (h', v) \<Rightarrow> Inr h')"
| "step env h (RunEffect p) =
     (case effect env p h of Inl e \<Rightarrow> Inl e | Inr (h', animations) \<Rightarrow> Inr h')"
| "step env h (SetTabBarHeightCalled x) = Inr (h\<lparr>tabBarHeight := x\<rparr>)"

fun run :: "environment \<Rightarrow> hooks \<Rightarrow> event list \<Rightarrow> error + hooks" where
  "run env h [] = Inr h"
| "run env h (ev # evs) =
     (case step env h ev of Inl e \<Rightarrow> Inl e | Inr h' \<Rightarrow> run env h' evs)"

section \<open>Reading an element tree\<close>

text \<open>The children of the screen container, one per route.\<close>

fun container_screens :: "element option \<Rightarrow> screen_element option list" where
  "container_screens (Some (MaybeScreenContainer e t ss)) = ss"
| "container_screens c = []"

definition screens_of :: "view \<Rightarrow> screen_element option list" where
  "screens_of v = concat (map container_screens (children v))"

text \<open>The children that are rendered, in order: \<open>null\<close> renders nothing.\<close>

definition rendered_children :: "view \<Rightarrow> element list" where
  "rendered_children v = List.map_filter id (children v)"

fun is_tab_bar :: "element \<Rightarrow> bool" where
  "is_tab_bar (HeightCallbackProvider setter tb) = True"
| "is_tab_bar (MaybeScreenContainer e t ss) = False"

text \<open>The tab bars of a tree with the values of their providers.\<close>

fun tab_bar_of :: "element option \<Rightarrow> (state_setter \<times> tab_bar_props) list" where
  "tab_bar_of (Some (HeightCallbackProvider setter tb)) = [(setter, tb)]"
| "tab_bar_of c = []"

definition tab_bars_of :: "view \<Rightarrow> (state_setter \<times> tab_bar_props) list" where
  "tab_bars_of v = concat (map tab_bar_of (children v))"

definition inset_at :: "edge_insets \<Rightarrow> side \<Rightarrow> rat" where
  "inset_at e s =
     (case s of
        SideTop \<Rightarrow> inset_top e
      | SideRight \<Rightarrow> inset_right e
      | SideBottom \<Rightarrow> inset_bottom e
      | SideLeft \<Rightarrow> inset_left e)"

text \<open>The numbers an activity state can take as written: its own, or its output range.\<close>

fun activity_values :: "activity_state \<Rightarrow> nat set" where
  "activity_values (Constant n) = {n}"
| "activity_values (Interpolation a inputRange outputRange e) = set outputRange"

text \<open>
  Props the component renders without failing on: the index is in range, and every
  route has a descriptor and an animated value.
\<close>

definition wellformed :: "environment \<Rightarrow> props \<Rightarrow> bool" where
  "wellformed env p \<longleftrightarrow>
     index (state p) < length (routes (state p))
     \<and> (\<forall>r \<in> set (routes (state p)).
           descriptors p (key r) \<noteq> None
           \<and> useAnimatedHashMap env (state p) (key r) \<noteq> None)"

section \<open>A navigator to evaluate the theorems on\<close>

text \<open>
  Four tabs named as in the example application, with options that exercise the
  branches of the component: a faded tab, a tab unmounted on blur, a tab without
  animation, and a tab that is not lazy and has a transition spec of its own.
\<close>

definition default_options :: options where
  "default_options =
     \<lparr>lazy = None, unmountOnBlur = None, animation = None, transitionSpec = None,
      sceneStyleInterpolator = None, tabBarPosition = None, tabBarStyle = None,
      freezeOnBlur = None\<rparr>"

definition example_spec :: transition_spec where
  "example_spec = \<lparr>spec_animation = Spring, spec_config = [(''stiffness'', 1000)]\<rparr>"

definition example_routes :: "route list" where
  "example_routes =
     [\<lparr>key = ''TabStack-1'', name = ''TabStack''\<rparr>,
      \<lparr>key = ''TabChat-2'', name = ''TabChat''\<rparr>,
      \<lparr>key = ''TabContacts-3'', name = ''TabContacts''\<rparr>,
      \<lparr>key = ''TabAlbums-4'', name = ''TabAlbums''\<rparr>]"

definition example_descriptors :: "tab_bar_position option \<Rightarrow> string \<rightharpoonup> descriptor" where
  "example_descriptors pos =
     [''TabStack-1'' \<mapsto>
        \<lparr>descriptor_options = default_options\<lparr>animation := Some Fade, tabBarPosition := pos\<rparr>,
         descriptor_route = \<lparr>key = ''TabStack-1'', name = ''TabStack''\<rparr>\<rparr>,
      ''TabChat-2'' \<mapsto>
        \<lparr>descriptor_options =
           default_options\<lparr>animation := Some Fade, unmountOnBlur := Some True,
             tabBarPosition := pos\<rparr>,
         descriptor_route = \<lparr>key = ''TabChat-2'', name = ''TabChat''\<rparr>\<rparr>,
      ''TabContacts-3'' \<mapsto>
        \<lparr>descriptor_options =
           default_options\<lparr>animation := Some NoAnimation, tabBarPosition := pos\<rparr>,
         descriptor_route = \<lparr>key = ''TabContacts-3'', name = ''TabContacts''\<rparr>\<rparr>,
      ''TabAlbums-4'' \<mapsto>
        \<lparr>descriptor_options =
           default_options\<lparr>lazy := Some False, transitionSpec := Some example_spec,
             tabBarStyle := Some (TabBarStyle ''absolute''), tabBarPosition := pos\<rparr>,
         descriptor_route = \<lparr>key = ''TabAlbums-4'', name = ''TabAlbums''\<rparr>\<rparr>]"

definition example_props :: "tab_bar_position option \<Rightarrow> nat \<Rightarrow> props" where
  "example_props pos i =
     \<lparr>state = \<lparr>routes = example_routes, index = i, preloadedRouteKeys = []\<rparr>,
      descriptors = example_descriptors pos,
      safeAreaInsets = Some [SideBottom \<mapsto> Some 20, SideLeft \<mapsto> None],
      detachInactiveScreens = None\<rparr>"

definition example_env :: environment where
  "example_env =
     \<lparr>platform_OS = Ios,
      presets =
        \<lparr>FadeTransition =
           \<lparr>preset_sceneStyleInterpolator = Some (SceneStyleInterpolator ''forFade''),
            preset_transitionSpec =
              Some \<lparr>spec_animation = Timing, spec_config = [(''duration'', 150)]\<rparr>\<rparr>,
         ShiftTransition =
           \<lparr>preset_sceneStyleInterpolator = Some (SceneStyleInterpolator ''forShift''),
            preset_transitionSpec =
              Some \<lparr>spec_animation = Timing, spec_config = [(''duration'', 150)]\<rparr>\<rparr>\<rparr>,
      initialMetrics =
        \<lparr>frame = \<lparr>layout_width = 390, layout_height = 844\<rparr>,
         metrics_insets = (\<lambda>s. case s of SideTop \<Rightarrow> 47 | SideBottom \<Rightarrow> 34 | _ \<Rightarrow> 0)\<rparr>,
      getTabBarHeight =
        (\<lambda>a. 49 + (case arg_insets a SideBottom of Some (Some b) \<Rightarrow> b | _ \<Rightarrow> 0)),
      useAnimatedHashMap = (\<lambda>s. map_of (map (\<lambda>r. (key r, AnimatedValue (key r))) (routes s))),
      safeAreaInsetsContext = Some [SideTop \<mapsto> 47, SideBottom \<mapsto> 34]\<rparr>"

definition example_hooks :: hooks where
  "example_hooks =
     \<lparr>loaded = [''TabStack-1''], previousRouteKeyRef = ''TabStack-1'', tabBarHeight = 69\<rparr>"

section \<open>Lemmas on the loops over the routes\<close>

lemma routes_map_length: "routes_map f i rs = Inr xs \<Longrightarrow> length xs = length rs"
  by (induction rs arbitrary: i xs) (auto split: sum.splits)

lemma routes_map_nth:
  "routes_map f i rs = Inr xs \<Longrightarrow> j < length rs \<Longrightarrow> f (rs ! j) (i + j) = Inr (xs ! j)"
proof (induction rs arbitrary: i xs j)
  case Nil
  then show ?case by simp
next
  case (Cons r rs)
  from Cons.prems(1) obtain x ys where x: "f r i = Inr x"
    and ys: "routes_map f (Suc i) rs = Inr ys" and xs: "xs = x # ys"
    by (auto split: sum.splits)
  show ?case
  proof (cases j)
    case 0
    with x xs show ?thesis by simp
  next
    case (Suc k)
    with Cons.prems(2) have "k < length rs" by simp
    from Cons.IH [OF ys this] Suc xs show ?thesis by simp
  qed
qed

lemma routes_map_returns:
  "(\<And>j. j < length rs \<Longrightarrow> \<exists>x. f (rs ! j) (i + j) = Inr x) \<Longrightarrow> \<exists>xs. routes_map f i rs = Inr xs"
proof (induction rs arbitrary: i)
  case Nil
  then show ?case by simp
next
  case (Cons r rs)
  from Cons.prems [of 0] obtain x where x: "f r i = Inr x" by auto
  have "\<exists>xs. routes_map f (Suc i) rs = Inr xs"
  proof (rule Cons.IH)
    fix j assume "j < length rs"
    then show "\<exists>x. f (rs ! j) (Suc i + j) = Inr x"
      using Cons.prems [of "Suc j"] by simp
  qed
  with x show ?case by auto
qed

lemma routes_some_Inr:
  "routes_some f rs = Inr b \<Longrightarrow> \<forall>r \<in> set rs. f r = Inr (g r) \<Longrightarrow> b = (\<exists>r \<in> set rs. g r)"
  by (induction rs arbitrary: b) (auto split: sum.splits if_splits)

lemma routes_some_returns:
  "\<forall>r \<in> set rs. \<exists>x. f r = Inr x \<Longrightarrow> \<exists>b. routes_some f rs = Inr b"
  by (induction rs) (auto split: sum.splits)

section \<open>Lemmas on one render\<close>

lemma BottomTabView_Inr:
  assumes "BottomTabView env p hk = Inr (h', v)"
  shows "\<exists>focusedKey h anyAnimated focusedOptions screens.
    focusedRouteKey (state p) = Inr focusedKey
    \<and> useHooks env p hk = Inr h
    \<and> routes_some (routeHasAnimation p) (routes (state p)) = Inr anyAnimated
    \<and> options_of (descriptors p) focusedKey = Inr focusedOptions
    \<and> routes_map
         (renderScreen env p (loaded h) (useAnimatedHashMap env (state p))
            (position_of focusedOptions) (tabBarHeight h) (detachInactive env p))
         0 (routes (state p)) = Inr screens
    \<and> h' = setLoadedIfAbsent focusedKey h
    \<and> root_style v =
         (if position_of focusedOptions = PositionLeft then Some styles_left
          else if position_of focusedOptions = PositionRight then Some styles_right
          else None)
    \<and> children v =
         [if position_of focusedOptions = PositionTop
          then Some (HeightCallbackProvider SetTabBarHeight (renderTabBar env p)) else None,
          Some (MaybeScreenContainer (detachInactive env p) (\<not> anyAnimated) screens),
          if position_of focusedOptions \<noteq> PositionTop
          then Some (HeightCallbackProvider SetTabBarHeight (renderTabBar env p)) else None]"
  using assms unfolding BottomTabView_def Let_def
  by (auto split: sum.splits)

lemma wellformed_options:
  "wellformed env p \<Longrightarrow> r \<in> set (routes (state p)) \<Longrightarrow>
     \<exists>d. descriptors p (key r) = Some d
          \<and> options_of (descriptors p) (key r) = Inr (descriptor_options d)"
  by (auto simp: wellformed_def options_of_def)

lemma wellformed_focused:
  "wellformed env p \<Longrightarrow>
     focusedRouteKey (state p) = Inr (key (routes (state p) ! index (state p)))
     \<and> routes (state p) ! index (state p) \<in> set (routes (state p))"
  by (simp add: wellformed_def focusedRouteKey_def)

lemma wellformed_useHooks:
  "wellformed env p \<Longrightarrow> \<exists>h. useHooks env p hk = Inr h"
  using wellformed_focused [of env p]
    wellformed_options [of env p "routes (state p) ! index (state p)"]
  by (auto simp: useHooks_def initialTabBarHeight_def Let_def split: option.splits sum.splits)

lemma renderScreen_returns:
  "wellformed env p \<Longrightarrow> r \<in> set (routes (state p)) \<Longrightarrow>
     \<exists>x. renderScreen env p ld (useAnimatedHashMap env (state p)) pos ht dt r i = Inr x"
  by (auto simp: wellformed_def renderScreen_def activityState_def Let_def
      split: option.splits sum.splits)

lemma BottomTabView_returns:
  assumes "wellformed env p"
  shows "\<exists>h' v. BottomTabView env p hk = Inr (h', v)"
proof -
  let ?rs = "routes (state p)"
  from wellformed_focused [OF assms] obtain k where k: "focusedRouteKey (state p) = Inr k"
    and kin: "k = key (?rs ! index (state p))" "?rs ! index (state p) \<in> set ?rs" by auto
  from wellformed_useHooks [OF assms] obtain h where h: "useHooks env p hk = Inr h" by auto
  have "\<forall>r \<in> set ?rs. \<exists>x. routeHasAnimation p r = Inr x"
    using assms by (auto simp: routeHasAnimation_def wellformed_def options_of_def)
  from routes_some_returns [OF this] obtain b where b: "routes_some (routeHasAnimation p) ?rs = Inr b"
    by auto
  from wellformed_options [OF assms kin(2)] kin(1) obtain fo where
    fo: "options_of (descriptors p) k = Inr fo" by auto
  have "\<exists>xs. routes_map
         (renderScreen env p (loaded h) (useAnimatedHashMap env (state p))
            (position_of fo) (tabBarHeight h) (detachInactive env p)) 0 ?rs = Inr xs"
    by (rule routes_map_returns) (simp add: renderScreen_returns [OF assms])
  then obtain xs where xs: "routes_map
         (renderScreen env p (loaded h) (useAnimatedHashMap env (state p))
            (position_of fo) (tabBarHeight h) (detachInactive env p)) 0 ?rs = Inr xs" by auto
  show ?thesis
    unfolding BottomTabView_def Let_def by (simp add: k h b fo xs)
qed

lemma render_wellformed:
  assumes wf: "wellformed env p" and hk: "useHooks env p hk = Inr h"
  obtains v fd screens where
    "descriptors p (key (routes (state p) ! index (state p))) = Some fd"
    "BottomTabView env p hk =
       Inr (setLoadedIfAbsent (key (routes (state p) ! index (state p))) h, v)"
    "screens_of v = screens"
    "length screens = length (routes (state p))"
    "\<And>i. i < length (routes (state p)) \<Longrightarrow>
       renderScreen env p (loaded h) (useAnimatedHashMap env (state p))
         (position_of (descriptor_options fd)) (tabBarHeight h) (detachInactive env p)
         (routes (state p) ! i) i = Inr (screens ! i)"
    "root_style v =
       (if position_of (descriptor_options fd) = PositionLeft then Some styles_left
        else if position_of (descriptor_options fd) = PositionRight then Some styles_right
        else None)"
    "children v =
       [if position_of (descriptor_options fd) = PositionTop
        then Some (HeightCallbackProvider SetTabBarHeight (renderTabBar env p)) else None,
        Some (MaybeScreenContainer (detachInactive env p)
                (\<not> (\<exists>r \<in> set (routes (state p)).
                       \<exists>d. descriptors p (key r) = Some d \<and> hasAnimation (descriptor_options d)))
                screens),
        if position_of (descriptor_options fd) \<noteq> PositionTop
        then Some (HeightCallbackProvider SetTabBarHeight (renderTabBar env p)) else None]"
proof -
  let ?rs = "routes (state p)"
  let ?k = "key (?rs ! index (state p))"
  from BottomTabView_returns [OF wf] obtain h' v where
    r: "BottomTabView env p hk = Inr (h', v)" by blast
  from wellformed_focused [OF wf] have k: "focusedRouteKey (state p) = Inr ?k"
    and kin: "?rs ! index (state p) \<in> set ?rs" by auto
  from wellformed_options [OF wf kin] obtain fd where
    fd: "descriptors p ?k = Some fd"
    and fo: "options_of (descriptors p) ?k = Inr (descriptor_options fd)" by auto
  from BottomTabView_Inr [OF r] k hk fo obtain b screens where
    b: "routes_some (routeHasAnimation p) ?rs = Inr b"
    and m: "routes_map
         (renderScreen env p (loaded h) (useAnimatedHashMap env (state p))
            (position_of (descriptor_options fd)) (tabBarHeight h) (detachInactive env p))
         0 ?rs = Inr screens"
    and h': "h' = setLoadedIfAbsent ?k h"
    and st: "root_style v =
         (if position_of (descriptor_options fd) = PositionLeft then Some styles_left
          else if position_of (descriptor_options fd) = PositionRight then Some styles_right
          else None)"
    and ch: "children v =
         [if position_of (descriptor_options fd) = PositionTop
          then Some (HeightCallbackProvider SetTabBarHeight (renderTabBar env p)) else None,
          Some (MaybeScreenContainer (detachInactive env p) (\<not> b) screens),
          if position_of (descriptor_options fd) \<noteq> PositionTop
          then Some (HeightCallbackProvider SetTabBarHeight (renderTabBar env p)) else None]"
    by auto
  have "\<forall>r \<in> set ?rs. routeHasAnimation p r =
          Inr (\<exists>d. descriptors p (key r) = Some d \<and> hasAnimation (descriptor_options d))"
    using wf by (auto simp: routeHasAnimation_def wellformed_def options_of_def)
  from routes_some_Inr [OF b this]
  have b': "b = (\<exists>r \<in> set ?rs. \<exists>d. descriptors p (key r) = Some d \<and> hasAnimation (descriptor_options d))" .
  have so: "screens_of v = screens"
    by (simp add: screens_of_def ch)
  have nth: "\<And>i. i < length ?rs \<Longrightarrow>
       renderScreen env p (loaded h) (useAnimatedHashMap env (state p))
         (position_of (descriptor_options fd)) (tabBarHeight h) (detachInactive env p)
         (?rs ! i) i = Inr (screens ! i)"
    using routes_map_nth [OF m] by simp
  show ?thesis
    by (rule that [OF fd _ so routes_map_length [OF m] nth st])
       (simp_all add: r h' ch b')
qed

lemma renderScreen_None:
  assumes "renderScreen env p ld tabAnims pos ht dt route i = Inr x"
    and "descriptors p (key route) = Some d"
  shows "x = None \<longleftrightarrow>
     (unmountOnBlur (descriptor_options d) = Some True \<and> index (state p) \<noteq> i)
     \<or> (nullish_default (lazy (descriptor_options d)) True
         \<and> key route \<notin> set ld
         \<and> index (state p) \<noteq> i
         \<and> key route \<notin> set (preloadedRouteKeys (state p)))"
  using assms unfolding renderScreen_def Let_def
  by (auto split: if_splits sum.splits)

lemma renderScreen_Some:
  assumes "renderScreen env p ld tabAnims pos ht dt route i = Inr (Some s)"
    and "descriptors p (key route) = Some d"
  shows "screen_key s = key route"
    and "focused s = (index (state p) = i)"
    and "zIndex s = (if index (state p) = i then 0 else - 1)"
    and "enabled s = dt"
    and "heightContext s = (if pos = PositionBottom then ht else 0)"
    and "activityState tabAnims route (index (state p) = i)
           (hasAnimation (descriptor_options d)) = Inr (active s)"
  using assms unfolding renderScreen_def Let_def
  by (auto split: if_splits sum.splits)

lemma activityState_Inr:
  assumes "activityState tabAnims route isFocused animationEnabled = Inr a"
  shows "activity_values a \<subseteq> {0, 1, 2}"
    and "isFocused \<Longrightarrow> a = Constant 2"
    and "\<not> isFocused \<Longrightarrow> \<not> animationEnabled \<Longrightarrow> a = Constant 0"
    and "\<not> isFocused \<Longrightarrow> animationEnabled \<Longrightarrow>
           \<exists>x. tabAnims (key route) = Some x
               \<and> a = Interpolation x [0, 1 - 1 / 100000, 1] [1, 1, 0] Extend"
  using assms
  by (auto simp: activityState_def STATE_ON_TOP_def STATE_INACTIVE_def
      STATE_TRANSITIONING_OR_BELOW_TOP_def EPSILON_def
      split: if_splits option.splits)

lemma useHooks_Some: "useHooks env p (Some h) = Inr h"
  by (simp add: useHooks_def)

lemma render_height_and_tab_bar:
  assumes wf: "wellformed env p" and hk: "useHooks env p hk = Inr h"
    and fd: "descriptors p (key (routes (state p) ! index (state p))) = Some fd"
  shows "\<exists>h' v. BottomTabView env p hk = Inr (h', v)
    \<and> tabBarHeight h' = tabBarHeight h
    \<and> (\<forall>i < length (routes (state p)). \<forall>s. screens_of v ! i = Some s \<longrightarrow>
          heightContext s =
            (if position_of (descriptor_options fd) = PositionBottom then tabBarHeight h else 0))
    \<and> tab_bars_of v = [(SetTabBarHeight, renderTabBar env p)]"
proof (rule render_wellformed [OF wf hk])
  fix v and fd' :: descriptor and screens
  assume r: "BottomTabView env p hk =
       Inr (setLoadedIfAbsent (key (routes (state p) ! index (state p))) h, v)"
    and fd': "descriptors p (key (routes (state p) ! index (state p))) = Some fd'"
    and so: "screens_of v = screens"
    and nth: "\<And>i. i < length (routes (state p)) \<Longrightarrow>
       renderScreen env p (loaded h) (useAnimatedHashMap env (state p))
         (position_of (descriptor_options fd')) (tabBarHeight h) (detachInactive env p)
         (routes (state p) ! i) i = Inr (screens ! i)"
    and ch: "children v =
       [if position_of (descriptor_options fd') = PositionTop
        then Some (HeightCallbackProvider SetTabBarHeight (renderTabBar env p)) else None,
        Some (MaybeScreenContainer (detachInactive env p)
                (\<not> (\<exists>r \<in> set (routes (state p)).
                       \<exists>d. descriptors p (key r) = Some d \<and> hasAnimation (descriptor_options d)))
                screens),
        if position_of (descriptor_options fd') \<noteq> PositionTop
        then Some (HeightCallbackProvider SetTabBarHeight (renderTabBar env p)) else None]"
  from fd fd' have eq: "fd' = fd" by simp
  have ht: "heightContext s =
      (if position_of (descriptor_options fd) = PositionBottom then tabBarHeight h else 0)"
    if i: "i < length (routes (state p))" and s: "screens ! i = Some s" for i s
  proof -
    from i have "routes (state p) ! i \<in> set (routes (state p))" by simp
    from wellformed_options [OF wf this] obtain d where
      d: "descriptors p (key (routes (state p) ! i)) = Some d" by auto
    from nth [OF i] s have "renderScreen env p (loaded h) (useAnimatedHashMap env (state p))
         (position_of (descriptor_options fd')) (tabBarHeight h) (detachInactive env p)
         (routes (state p) ! i) i = Inr (Some s)" by simp
    from renderScreen_Some(5) [OF this d] eq show ?thesis by simp
  qed
  have tb: "tab_bars_of v = [(SetTabBarHeight, renderTabBar env p)]"
    by (simp add: tab_bars_of_def ch)
  have "tabBarHeight (setLoadedIfAbsent (key (routes (state p) ! index (state p))) h)
      = tabBarHeight h"
    by (simp add: setLoadedIfAbsent_def)
  with r so ht tb show ?thesis by auto
qed

lemma useHooks_mount_height:
  assumes "useHooks env p None = Inr h"
    and "descriptors p (key (routes (state p) ! index (state p))) = Some fd"
  shows "tabBarHeight h =
     getTabBarHeight env
       \<lparr>arg_state = state p,
        arg_descriptors = descriptors p,
        arg_dimensions = frame (initialMetrics env),
        arg_layout =
          \<lparr>layout_width = layout_width (frame (initialMetrics env)), layout_height = 0\<rparr>,
        arg_insets =
          (\<lambda>s. Some (Some (metrics_insets (initialMetrics env) s)))
            ++ (case safeAreaInsets p of None \<Rightarrow> Map.empty | Some m \<Rightarrow> m),
        arg_style = tabBarStyle (descriptor_options fd)\<rparr>"
  using assms
  by (auto simp: useHooks_def initialTabBarHeight_def focusedRouteKey_def options_of_def Let_def
      split: sum.splits if_splits option.splits)

lemma renderTabBar_inset:
  "inset_at (insets (renderTabBar env p)) s =
     nullish_default
       (nullish (prop_inset (safeAreaInsets p) s) (context_inset (safeAreaInsetsContext env) s)) 0"
  by (cases s) (simp_all add: renderTabBar_def inset_at_def Let_def)

lemma focused_screen_mounted:
  assumes wf: "wellformed env p" and hk: "useHooks env p hk = Inr h"
    and r: "BottomTabView env p hk = Inr (h', v)"
  shows "\<exists>s. screens_of v ! index (state p) = Some s"
proof (rule render_wellformed [OF wf hk])
  fix v' and fd :: descriptor and screens
  assume r': "BottomTabView env p hk =
       Inr (setLoadedIfAbsent (key (routes (state p) ! index (state p))) h, v')"
    and fd: "descriptors p (key (routes (state p) ! index (state p))) = Some fd"
    and so: "screens_of v' = screens"
    and nth: "\<And>i. i < length (routes (state p)) \<Longrightarrow>
       renderScreen env p (loaded h) (useAnimatedHashMap env (state p))
         (position_of (descriptor_options fd)) (tabBarHeight h) (detachInactive env p)
         (routes (state p) ! i) i = Inr (screens ! i)"
  from r r' have v: "v' = v" by simp
  from wf have ix: "index (state p) < length (routes (state p))"
    by (simp add: wellformed_def)
  from renderScreen_None [OF nth [OF ix] fd] so v show ?thesis by auto
qed

section \<open>Lemmas on the effect and on the loaded keys\<close>

lemma animateRoute_Inr:
  assumes "animateRoute env p previousRouteKey focusedKey tabAnims route i = Inr a"
  shows "toValue a = (if i = index (state p) then 0 else if i > index (state p) then 1 else - 1)"
    and "anim_value a = tabAnims (key route)"
    and "useNativeDriver a"
    and "key route \<noteq> previousRouteKey \<Longrightarrow> key route \<noteq> focusedKey \<Longrightarrow>
           anim_driver a = Timing \<and> anim_config a = [(''duration'', 0)]"
  using assms
  by (auto simp: animateRoute_def options_of_def Let_def nullish_def nullish_default_def
      none_preset_def none_transitionSpec_def
      split: option.splits sum.splits if_splits)

lemma animateRoute_returns:
  "wellformed env p \<Longrightarrow> r \<in> set (routes (state p)) \<Longrightarrow>
     \<exists>a. animateRoute env p previousRouteKey focusedKey tabAnims r i = Inr a"
  by (auto simp: wellformed_def animateRoute_def options_of_def Let_def split: option.splits)

lemma effect_wellformed:
  assumes wf: "wellformed env p"
  obtains animations where
    "effect env p h =
       Inr (h\<lparr>previousRouteKeyRef := key (routes (state p) ! index (state p))\<rparr>, animations)"
    "length animations = length (routes (state p))"
    "\<And>i. i < length (routes (state p)) \<Longrightarrow>
       animateRoute env p (previousRouteKeyRef h) (key (routes (state p) ! index (state p)))
         (useAnimatedHashMap env (state p)) (routes (state p) ! i) i = Inr (animations ! i)"
proof -
  let ?k = "key (routes (state p) ! index (state p))"
  let ?f = "animateRoute env p (previousRouteKeyRef h) ?k (useAnimatedHashMap env (state p))"
  from wellformed_focused [OF wf] have k: "focusedRouteKey (state p) = Inr ?k" by simp
  have "\<exists>xs. routes_map ?f 0 (routes (state p)) = Inr xs"
    by (rule routes_map_returns) (simp add: animateRoute_returns [OF wf])
  then obtain xs where xs: "routes_map ?f 0 (routes (state p)) = Inr xs" by auto
  have e: "effect env p h = Inr (h\<lparr>previousRouteKeyRef := ?k\<rparr>, xs)"
    by (simp add: effect_def k animateToIndex_def xs Let_def)
  have nth: "\<And>i. i < length (routes (state p)) \<Longrightarrow> ?f (routes (state p) ! i) i = Inr (xs ! i)"
    using routes_map_nth [OF xs] by simp
  show ?thesis
    by (rule that [OF e routes_map_length [OF xs] nth])
qed

lemma setLoadedIfAbsent_loaded:
  "loaded (setLoadedIfAbsent k h) = (if k \<in> set (loaded h) then loaded h else loaded h @ [k])"
  by (simp add: setLoadedIfAbsent_def)

lemma render_loaded:
  assumes "BottomTabView env p (Some h) = Inr (h1, v)"
  shows "\<exists>k. focusedRouteKey (state p) = Inr k
           \<and> loaded h1 = (if k \<in> set (loaded h) then loaded h else loaded h @ [k])"
  using BottomTabView_Inr [OF assms]
  by (auto simp: useHooks_Some setLoadedIfAbsent_loaded)

lemma effect_loaded:
  "effect env p h = Inr (h', animations) \<Longrightarrow> loaded h' = loaded h"
  by (auto simp: effect_def Let_def split: sum.splits)

lemma step_loaded:
  assumes "step env h ev = Inr h'"
  shows "prefix (loaded h) (loaded h')"
    and "distinct (loaded h) \<Longrightarrow> distinct (loaded h')"
proof -
  have "prefix (loaded h) (loaded h') \<and> (distinct (loaded h) \<longrightarrow> distinct (loaded h'))"
  proof (cases ev)
    case (Render p)
    with assms obtain v where "BottomTabView env p (Some h) = Inr (h', v)"
      by (auto split: sum.splits)
    from render_loaded [OF this] show ?thesis by auto
  next
    case (RunEffect p)
    with assms obtain animations where "effect env p h = Inr (h', animations)"
      by (auto split: sum.splits)
    from effect_loaded [OF this] show ?thesis by simp
  next
    case (SetTabBarHeightCalled x)
    with assms show ?thesis by auto
  qed
  then show "prefix (loaded h) (loaded h')"
    and "distinct (loaded h) \<Longrightarrow> distinct (loaded h')" by simp_all
qed

lemma run_loaded:
  "run env h evs = Inr h' \<Longrightarrow>
     prefix (loaded h) (loaded h') \<and> (distinct (loaded h) \<longrightarrow> distinct (loaded h'))"
proof (induction evs arbitrary: h)
  case Nil
  then show ?case by simp
next
  case (Cons ev evs)
  from Cons.prems obtain h1 where s: "step env h ev = Inr h1" and r: "run env h1 evs = Inr h'"
    by (auto split: sum.splits)
  from step_loaded [OF s] Cons.IH [OF r] show ?case
    by (auto intro: prefix_order.trans)
qed

lemma loaded_screen_mounted:
  assumes wf: "wellformed env q"
    and i: "i < length (routes (state q))"
    and ld: "key (routes (state q) ! i) \<in> set (loaded h)"
    and d: "descriptors q (key (routes (state q) ! i)) = Some d"
    and u: "unmountOnBlur (descriptor_options d) \<noteq> Some True"
  shows "\<exists>h' v s. BottomTabView env q (Some h) = Inr (h', v)
           \<and> screens_of v ! i = Some s \<and> screen_key s = key (routes (state q) ! i)"
proof (rule render_wellformed [OF wf useHooks_Some [of env q h]])
  fix v and fd :: descriptor and screens
  assume r: "BottomTabView env q (Some h) =
       Inr (setLoadedIfAbsent (key (routes (state q) ! index (state q))) h, v)"
    and so: "screens_of v = screens"
    and nth: "\<And>i. i < length (routes (state q)) \<Longrightarrow>
       renderScreen env q (loaded h) (useAnimatedHashMap env (state q))
         (position_of (descriptor_options fd)) (tabBarHeight h) (detachInactive env q)
         (routes (state q) ! i) i = Inr (screens ! i)"
  from renderScreen_None [OF nth [OF i] d] ld u obtain s where s: "screens ! i = Some s"
    by auto
  from nth [OF i] s have "renderScreen env q (loaded h) (useAnimatedHashMap env (state q))
         (position_of (descriptor_options fd)) (tabBarHeight h) (detachInactive env q)
         (routes (state q) ! i) i = Inr (Some s)" by simp
  from renderScreen_Some(1) [OF this d] have "screen_key s = key (routes (state q) ! i)" .
  with r so s show ?thesis by auto
qed

section \<open>The example navigator is well formed\<close>

lemma example_wellformed:
  "wellformed example_env (example_props pos i) \<longleftrightarrow> i < length example_routes"
  by (simp add: wellformed_def example_env_def example_props_def example_routes_def
      example_descriptors_def)

lemma example_useHooks:
  "useHooks example_env (example_props pos i) (Some example_hooks) = Inr example_hooks"
  by (simp add: useHooks_def)


lemmas example_defs =
  example_env_def example_props_def example_routes_def example_descriptors_def
  example_hooks_def default_options_def example_spec_def

lemma example_render_albums:
  assumes "BottomTabView example_env (example_props None 3) (Some example_hooks) = Inr (h', v)"
  shows "loaded h' = [''TabStack-1'', ''TabAlbums-4'']"
    and "map (map_option screen_key) (screens_of v) =
           [Some ''TabStack-1'', None, None, Some ''TabAlbums-4'']"
  using assms
  by (auto simp: example_defs BottomTabView_def focusedRouteKey_def useHooks_def
      detachInactive_def setLoadedIfAbsent_def routeHasAnimation_def options_of_def
      hasAnimation_def position_of_def nullish_default_def nullish_def renderScreen_def
      activityState_def screens_of_def Let_def)

lemma example_mount_contacts:
  "useHooks example_env (example_props None 2) None =
     Inr \<lparr>loaded = [''TabContacts-3''], previousRouteKeyRef = ''TabContacts-3'',
          tabBarHeight = 69\<rparr>"
  by (simp add: example_defs useHooks_def initialTabBarHeight_def focusedRouteKey_def
      options_of_def map_add_def Let_def)

lemma example_mount_stack:
  "useHooks example_env (example_props None 0) None = Inr example_hooks"
  by (simp add: example_defs useHooks_def initialTabBarHeight_def focusedRouteKey_def
      options_of_def map_add_def Let_def)

lemma example_run:
  "run example_env example_hooks
     [Render (example_props None 2), RunEffect (example_props None 2),
      SetTabBarHeightCalled 83, Render (example_props None 3)] =
   Inr \<lparr>loaded = [''TabStack-1'', ''TabContacts-3'', ''TabAlbums-4''],
        previousRouteKeyRef = ''TabContacts-3'', tabBarHeight = 83\<rparr>"
  by (simp add: example_defs BottomTabView_def focusedRouteKey_def useHooks_def
      detachInactive_def setLoadedIfAbsent_def routeHasAnimation_def options_of_def
      hasAnimation_def position_of_def nullish_default_def nullish_def renderScreen_def
      activityState_def effect_def animateToIndex_def animateRoute_def Let_def)

section \<open>Properties\<close>

text \<open>
  C9. \<open>hasAnimation\<close> is true exactly when a named animation other than \<open>none\<close> is
  set, or neither a named animation nor a transition spec is set. So options that give
  only a custom transition spec are not animated, and empty options are animated.
\<close>

theorem hasAnimation_characterisation:
  "(hasAnimation opts \<longleftrightarrow>
      (\<exists>a. animation opts = Some a \<and> a \<noteq> NoAnimation)
      \<or> (animation opts = None \<and> transitionSpec opts = None))
   \<and> \<not> hasAnimation (opts\<lparr>animation := None, transitionSpec := Some spec\<rparr>)
   \<and> hasAnimation (opts\<lparr>animation := None, transitionSpec := None\<rparr>)"
  by (auto simp: hasAnimation_def split: option.splits)

theorem hasAnimation_characterisation_witness:
  "hasAnimation (default_options\<lparr>animation := Some Fade\<rparr>)
   \<and> \<not> hasAnimation (default_options\<lparr>animation := Some NoAnimation\<rparr>)
   \<and> \<not> hasAnimation (default_options\<lparr>animation := None, transitionSpec := Some example_spec\<rparr>)
   \<and> hasAnimation (default_options\<lparr>animation := None, transitionSpec := None\<rparr>)"
  using hasAnimation_characterisation [of "default_options\<lparr>animation := Some Fade\<rparr>" example_spec]
    hasAnimation_characterisation [of "default_options\<lparr>animation := Some NoAnimation\<rparr>" example_spec]
    hasAnimation_characterisation [of default_options example_spec]
  by (simp add: default_options_def)

text \<open>
  C1. For every route, the render returns nothing for it when the option \<open>lazy\<close> (default
  true) holds, its key is not in \<open>loaded\<close>, it is not the focused route and its key is not
  in \<open>preloadedRouteKeys\<close>. Where \<open>unmountOnBlur\<close> does not apply, the render returns
  nothing for the route exactly then; when one of the four conditions fails there, the
  route's screen is mounted.
\<close>

theorem lazy_screen_deferred:
  assumes "wellformed env p" and "useHooks env p hk = Inr h"
  shows "\<exists>h' v. BottomTabView env p hk = Inr (h', v)
    \<and> length (screens_of v) = length (routes (state p))
    \<and> (\<forall>i < length (routes (state p)).
         \<forall>d. descriptors p (key (routes (state p) ! i)) = Some d \<longrightarrow>
           (let route = routes (state p) ! i;
                opts = descriptor_options d;
                deferred =
                  (nullish_default (lazy opts) True
                   \<and> key route \<notin> set (loaded h)
                   \<and> index (state p) \<noteq> i
                   \<and> key route \<notin> set (preloadedRouteKeys (state p)));
                unmounted = (unmountOnBlur opts = Some True \<and> index (state p) \<noteq> i)
            in (deferred \<longrightarrow> screens_of v ! i = None)
               \<and> (\<not> unmounted \<longrightarrow> (screens_of v ! i = None \<longleftrightarrow> deferred))
               \<and> (\<not> unmounted \<and> \<not> deferred \<longrightarrow>
                    (\<exists>s. screens_of v ! i = Some s \<and> screen_key s = key route))))"
proof (rule render_wellformed [OF assms])
  fix v and fd :: descriptor and screens
  assume r: "BottomTabView env p hk =
       Inr (setLoadedIfAbsent (key (routes (state p) ! index (state p))) h, v)"
    and so: "screens_of v = screens"
    and len: "length screens = length (routes (state p))"
    and nth: "\<And>i. i < length (routes (state p)) \<Longrightarrow>
       renderScreen env p (loaded h) (useAnimatedHashMap env (state p))
         (position_of (descriptor_options fd)) (tabBarHeight h) (detachInactive env p)
         (routes (state p) ! i) i = Inr (screens ! i)"
  have "\<forall>i < length (routes (state p)).
         \<forall>d. descriptors p (key (routes (state p) ! i)) = Some d \<longrightarrow>
           (let route = routes (state p) ! i;
                opts = descriptor_options d;
                deferred =
                  (nullish_default (lazy opts) True
                   \<and> key route \<notin> set (loaded h)
                   \<and> index (state p) \<noteq> i
                   \<and> key route \<notin> set (preloadedRouteKeys (state p)));
                unmounted = (unmountOnBlur opts = Some True \<and> index (state p) \<noteq> i)
            in (deferred \<longrightarrow> screens ! i = None)
               \<and> (\<not> unmounted \<longrightarrow> (screens ! i = None \<longleftrightarrow> deferred))
               \<and> (\<not> unmounted \<and> \<not> deferred \<longrightarrow>
                    (\<exists>s. screens ! i = Some s \<and> screen_key s = key route)))"
  proof (intro allI impI)
    fix i d
    assume i: "i < length (routes (state p))"
      and d: "descriptors p (key (routes (state p) ! i)) = Some d"
    note none = renderScreen_None [OF nth [OF i] d]
    have some: "\<And>s. screens ! i = Some s \<Longrightarrow> screen_key s = key (routes (state p) ! i)"
      using renderScreen_Some(1) [OF _ d] nth [OF i] by simp
    show "let route = routes (state p) ! i;
                opts = descriptor_options d;
                deferred =
                  (nullish_default (lazy opts) True
                   \<and> key route \<notin> set (loaded h)
                   \<and> index (state p) \<noteq> i
                   \<and> key route \<notin> set (preloadedRouteKeys (state p)));
                unmounted = (unmountOnBlur opts = Some True \<and> index (state p) \<noteq> i)
            in (deferred \<longrightarrow> screens ! i = None)
               \<and> (\<not> unmounted \<longrightarrow> (screens ! i = None \<longleftrightarrow> deferred))
               \<and> (\<not> unmounted \<and> \<not> deferred \<longrightarrow>
                    (\<exists>s. screens ! i = Some s \<and> screen_key s = key route))"
      unfolding Let_def using none some by (cases "screens ! i") auto
  qed
  with r so len show ?thesis by simp
qed

theorem lazy_screen_deferred_witness:
  "wellformed example_env (example_props None 0)
   \<and> useHooks example_env (example_props None 0) (Some example_hooks) = Inr example_hooks
   \<and> (\<exists>h' v. BottomTabView example_env (example_props None 0) (Some example_hooks) = Inr (h', v)
        \<and> length (screens_of v) = 4
        \<and> screens_of v ! 2 = None
        \<and> (\<exists>s. screens_of v ! 3 = Some s \<and> screen_key s = ''TabAlbums-4''))"
proof -
  have wf: "wellformed example_env (example_props None 0)"
    by (simp add: example_wellformed example_routes_def)
  note hk = example_useHooks [of None 0]
  from lazy_screen_deferred [OF wf hk] obtain h' v where
    r: "BottomTabView example_env (example_props None 0) (Some example_hooks) = Inr (h', v)"
    and len: "length (screens_of v) = length (routes (state (example_props None 0)))"
    and a: "\<And>i d. i < length (routes (state (example_props None 0))) \<Longrightarrow>
         descriptors (example_props None 0) (key (routes (state (example_props None 0)) ! i)) = Some d \<Longrightarrow>
           (let route = routes (state (example_props None 0)) ! i;
                opts = descriptor_options d;
                deferred =
                  (nullish_default (lazy opts) True
                   \<and> key route \<notin> set (loaded example_hooks)
                   \<and> index (state (example_props None 0)) \<noteq> i
                   \<and> key route \<notin> set (preloadedRouteKeys (state (example_props None 0))));
                unmounted = (unmountOnBlur opts = Some True \<and> index (state (example_props None 0)) \<noteq> i)
            in (deferred \<longrightarrow> screens_of v ! i = None)
               \<and> (\<not> unmounted \<longrightarrow> (screens_of v ! i = None \<longleftrightarrow> deferred))
               \<and> (\<not> unmounted \<and> \<not> deferred \<longrightarrow>
                    (\<exists>s. screens_of v ! i = Some s \<and> screen_key s = key route)))"
    by blast
  have "screens_of v ! 2 = None"
    using a [of 2] by (simp add: example_props_def example_routes_def example_descriptors_def
        example_hooks_def default_options_def nullish_default_def)
  moreover have "\<exists>s. screens_of v ! 3 = Some s \<and> screen_key s = ''TabAlbums-4''"
    using a [of 3] by (simp add: example_props_def example_routes_def example_descriptors_def
        example_hooks_def default_options_def nullish_default_def)
  moreover have "length (screens_of v) = 4"
    using len by (simp add: example_props_def example_routes_def)
  ultimately show ?thesis using wf hk r by blast
qed

text \<open>
  C5. A route whose option \<open>unmountOnBlur\<close> is true is rendered as nothing whenever it is
  not the focused route, and the screen of the focused route is always rendered,
  whatever its options.
\<close>

theorem unmountOnBlur_unmounts:
  assumes "wellformed env p" and "useHooks env p hk = Inr h"
  shows "\<exists>h' v. BottomTabView env p hk = Inr (h', v)
    \<and> (\<forall>i < length (routes (state p)).
         \<forall>d. descriptors p (key (routes (state p) ! i)) = Some d
             \<and> unmountOnBlur (descriptor_options d) = Some True
             \<and> i \<noteq> index (state p)
           \<longrightarrow> screens_of v ! i = None)
    \<and> (\<exists>s. screens_of v ! index (state p) = Some s
            \<and> focused s
            \<and> screen_key s = key (routes (state p) ! index (state p)))"
proof (rule render_wellformed [OF assms])
  fix v and fd :: descriptor and screens
  assume r: "BottomTabView env p hk =
       Inr (setLoadedIfAbsent (key (routes (state p) ! index (state p))) h, v)"
    and fd: "descriptors p (key (routes (state p) ! index (state p))) = Some fd"
    and so: "screens_of v = screens"
    and nth: "\<And>i. i < length (routes (state p)) \<Longrightarrow>
       renderScreen env p (loaded h) (useAnimatedHashMap env (state p))
         (position_of (descriptor_options fd)) (tabBarHeight h) (detachInactive env p)
         (routes (state p) ! i) i = Inr (screens ! i)"
  have blurred: "screens ! i = None"
    if "i < length (routes (state p))"
      and "descriptors p (key (routes (state p) ! i)) = Some d"
      and "unmountOnBlur (descriptor_options d) = Some True" and "i \<noteq> index (state p)"
    for i d
    using renderScreen_None [OF nth [OF that(1)] that(2)] that(3,4) by auto
  from assms(1) have ix: "index (state p) < length (routes (state p))"
    by (simp add: wellformed_def)
  from renderScreen_None [OF nth [OF ix] fd] obtain s where s: "screens ! index (state p) = Some s"
    by auto
  from nth [OF ix] s have "renderScreen env p (loaded h) (useAnimatedHashMap env (state p))
         (position_of (descriptor_options fd)) (tabBarHeight h) (detachInactive env p)
         (routes (state p) ! index (state p)) (index (state p)) = Inr (Some s)" by simp
  from renderScreen_Some(1,2) [OF this fd]
  have "focused s" "screen_key s = key (routes (state p) ! index (state p))" by simp_all
  with r so s blurred show ?thesis by auto
qed


theorem unmountOnBlur_unmounts_witness:
  "wellformed example_env (example_props None 0)
   \<and> useHooks example_env (example_props None 0) (Some example_hooks) = Inr example_hooks
   \<and> (\<exists>h' v. BottomTabView example_env (example_props None 0) (Some example_hooks) = Inr (h', v)
        \<and> screens_of v ! 1 = None
        \<and> (\<exists>s. screens_of v ! 0 = Some s \<and> focused s \<and> screen_key s = ''TabStack-1''))"
proof -
  let ?p = "example_props None 0"
  have wf: "wellformed example_env ?p"
    by (simp add: example_wellformed example_routes_def)
  note hk = example_useHooks [of None 0]
  from unmountOnBlur_unmounts [OF wf hk] obtain h' v where
    r: "BottomTabView example_env ?p (Some example_hooks) = Inr (h', v)"
    and a: "\<forall>i < length (routes (state ?p)).
         \<forall>d. descriptors ?p (key (routes (state ?p) ! i)) = Some d
             \<and> unmountOnBlur (descriptor_options d) = Some True
             \<and> i \<noteq> index (state ?p)
           \<longrightarrow> screens_of v ! i = None"
    and b: "\<exists>s. screens_of v ! index (state ?p) = Some s
            \<and> focused s
            \<and> screen_key s = key (routes (state ?p) ! index (state ?p))"
    by blast
  from a [rule_format, of 1] have "screens_of v ! 1 = None"
    by (simp add: example_defs)
  moreover from b have "\<exists>s. screens_of v ! 0 = Some s \<and> focused s \<and> screen_key s = ''TabStack-1''"
    by (simp add: example_defs)
  ultimately show ?thesis using wf hk r by blast
qed

text \<open>
  C3. The activity state of a mounted screen is written with the numbers 0, 1 and 2
  only: the focused route gets 2, an unfocused route without animation gets 0, and an
  unfocused animated route gets an interpolation of its animated value with input range
  \<open>[0, 1 - 1e-5, 1]\<close> and output range \<open>[1, 1, 0]\<close>.
\<close>

theorem activity_state_three_values:
  assumes "wellformed env p" and "useHooks env p hk = Inr h"
  shows "\<exists>h' v. BottomTabView env p hk = Inr (h', v)
    \<and> (\<forall>i < length (routes (state p)).
         \<forall>d s. descriptors p (key (routes (state p) ! i)) = Some d
               \<and> screens_of v ! i = Some s \<longrightarrow>
           activity_values (active s) \<subseteq> {0, 1, 2}
           \<and> (i = index (state p) \<longrightarrow> active s = Constant 2)
           \<and> (i \<noteq> index (state p) \<and> \<not> hasAnimation (descriptor_options d) \<longrightarrow>
                active s = Constant 0)
           \<and> (i \<noteq> index (state p) \<and> hasAnimation (descriptor_options d) \<longrightarrow>
                (\<exists>a. useAnimatedHashMap env (state p) (key (routes (state p) ! i)) = Some a
                     \<and> active s =
                         Interpolation a [0, 1 - 1 / 100000, 1] [1, 1, 0] Extend)))"
proof (rule render_wellformed [OF assms])
  fix v and fd :: descriptor and screens
  assume r: "BottomTabView env p hk =
       Inr (setLoadedIfAbsent (key (routes (state p) ! index (state p))) h, v)"
    and so: "screens_of v = screens"
    and nth: "\<And>i. i < length (routes (state p)) \<Longrightarrow>
       renderScreen env p (loaded h) (useAnimatedHashMap env (state p))
         (position_of (descriptor_options fd)) (tabBarHeight h) (detachInactive env p)
         (routes (state p) ! i) i = Inr (screens ! i)"
  have "activity_values (active s) \<subseteq> {0, 1, 2}
           \<and> (i = index (state p) \<longrightarrow> active s = Constant 2)
           \<and> (i \<noteq> index (state p) \<and> \<not> hasAnimation (descriptor_options d) \<longrightarrow>
                active s = Constant 0)
           \<and> (i \<noteq> index (state p) \<and> hasAnimation (descriptor_options d) \<longrightarrow>
                (\<exists>a. useAnimatedHashMap env (state p) (key (routes (state p) ! i)) = Some a
                     \<and> active s =
                         Interpolation a [0, 1 - 1 / 100000, 1] [1, 1, 0] Extend))"
    if "i < length (routes (state p))"
      and d: "descriptors p (key (routes (state p) ! i)) = Some d"
      and s: "screens ! i = Some s"
    for i d s
  proof -
    from nth [OF that(1)] s have "renderScreen env p (loaded h) (useAnimatedHashMap env (state p))
         (position_of (descriptor_options fd)) (tabBarHeight h) (detachInactive env p)
         (routes (state p) ! i) i = Inr (Some s)" by simp
    from renderScreen_Some(6) [OF this d]
    have a: "activityState (useAnimatedHashMap env (state p)) (routes (state p) ! i)
         (index (state p) = i) (hasAnimation (descriptor_options d)) = Inr (active s)" .
    show ?thesis
      using activityState_Inr [OF a] by auto
  qed
  with r so show ?thesis by auto
qed


theorem activity_state_three_values_witness:
  "wellformed example_env (example_props None 3)
   \<and> useHooks example_env (example_props None 3) (Some example_hooks) = Inr example_hooks
   \<and> (\<exists>h' v s t. BottomTabView example_env (example_props None 3) (Some example_hooks) = Inr (h', v)
        \<and> screens_of v ! 0 = Some s
        \<and> active s =
            Interpolation (AnimatedValue ''TabStack-1'') [0, 99999 / 100000, 1] [1, 1, 0] Extend
        \<and> screens_of v ! 3 = Some t
        \<and> active t = Constant 2)"
proof -
  let ?p = "example_props None 3"
  have wf: "wellformed example_env ?p"
    by (simp add: example_wellformed example_routes_def)
  note hk = example_useHooks [of None 3]
  from activity_state_three_values [OF wf hk] obtain h' v where
    r: "BottomTabView example_env ?p (Some example_hooks) = Inr (h', v)"
    and a: "\<forall>i < length (routes (state ?p)).
         \<forall>d s. descriptors ?p (key (routes (state ?p) ! i)) = Some d
               \<and> screens_of v ! i = Some s \<longrightarrow>
           activity_values (active s) \<subseteq> {0, 1, 2}
           \<and> (i = index (state ?p) \<longrightarrow> active s = Constant 2)
           \<and> (i \<noteq> index (state ?p) \<and> \<not> hasAnimation (descriptor_options d) \<longrightarrow>
                active s = Constant 0)
           \<and> (i \<noteq> index (state ?p) \<and> hasAnimation (descriptor_options d) \<longrightarrow>
                (\<exists>a. useAnimatedHashMap example_env (state ?p) (key (routes (state ?p) ! i)) = Some a
                     \<and> active s =
                         Interpolation a [0, 1 - 1 / 100000, 1] [1, 1, 0] Extend))"
    by blast
  from example_render_albums(2) [OF r] obtain s t where
    s: "screens_of v ! 0 = Some s" and t: "screens_of v ! 3 = Some t"
    by (auto simp: map_eq_Cons_conv)
  from a [rule_format, of 0 _ s] s
  have "active s =
     Interpolation (AnimatedValue ''TabStack-1'') [0, 99999 / 100000, 1] [1, 1, 0] Extend"
    by (simp add: example_defs hasAnimation_def)
  moreover from a [rule_format, of 3 _ t] t have "active t = Constant 2"
    by (simp add: example_defs)
  ultimately show ?thesis using wf hk r s t by blast
qed

text \<open>
  C10. The screen container gets \<open>hasTwoStates\<close> true exactly when no route has options
  for which \<open>hasAnimation\<close> holds.
\<close>

theorem hasTwoStates_iff_no_animation:
  assumes "wellformed env p" and "useHooks env p hk = Inr h"
  shows "\<exists>h' v e t ss. BottomTabView env p hk = Inr (h', v)
    \<and> Some (MaybeScreenContainer e t ss) \<in> set (children v)
    \<and> (\<forall>e' t' ss'. Some (MaybeScreenContainer e' t' ss') \<in> set (children v) \<longrightarrow> t' = t)
    \<and> (t \<longleftrightarrow>
         \<not> (\<exists>r \<in> set (routes (state p)).
               \<exists>d. descriptors p (key r) = Some d \<and> hasAnimation (descriptor_options d)))"
proof (rule render_wellformed [OF assms])
  fix v and fd :: descriptor and screens
  assume r: "BottomTabView env p hk =
       Inr (setLoadedIfAbsent (key (routes (state p) ! index (state p))) h, v)"
    and ch: "children v =
       [if position_of (descriptor_options fd) = PositionTop
        then Some (HeightCallbackProvider SetTabBarHeight (renderTabBar env p)) else None,
        Some (MaybeScreenContainer (detachInactive env p)
                (\<not> (\<exists>r \<in> set (routes (state p)).
                       \<exists>d. descriptors p (key r) = Some d \<and> hasAnimation (descriptor_options d)))
                screens),
        if position_of (descriptor_options fd) \<noteq> PositionTop
        then Some (HeightCallbackProvider SetTabBarHeight (renderTabBar env p)) else None]"
  show ?thesis
    by (rule exI [of _ "setLoadedIfAbsent (key (routes (state p) ! index (state p))) h"],
        rule exI [of _ v], rule exI [of _ "detachInactive env p"],
        rule exI [of _ "\<not> (\<exists>r \<in> set (routes (state p)).
                       \<exists>d. descriptors p (key r) = Some d \<and> hasAnimation (descriptor_options d))"],
        rule exI [of _ screens])
       (simp add: r ch)
qed


theorem hasTwoStates_iff_no_animation_witness:
  "wellformed example_env (example_props None 0)
   \<and> useHooks example_env (example_props None 0) (Some example_hooks) = Inr example_hooks
   \<and> (\<exists>h' v e ss. BottomTabView example_env (example_props None 0) (Some example_hooks) = Inr (h', v)
        \<and> Some (MaybeScreenContainer e False ss) \<in> set (children v))"
proof -
  let ?p = "example_props None 0"
  have wf: "wellformed example_env ?p"
    by (simp add: example_wellformed example_routes_def)
  note hk = example_useHooks [of None 0]
  from hasTwoStates_iff_no_animation [OF wf hk] obtain h' v e t ss where
    r: "BottomTabView example_env ?p (Some example_hooks) = Inr (h', v)"
    and c: "Some (MaybeScreenContainer e t ss) \<in> set (children v)"
    and t: "t \<longleftrightarrow>
         \<not> (\<exists>r \<in> set (routes (state ?p)).
               \<exists>d. descriptors ?p (key r) = Some d \<and> hasAnimation (descriptor_options d))"
    by blast
  from t have "t = False"
    by (simp add: example_defs hasAnimation_def)
  with wf hk r c show ?thesis by auto
qed

text \<open>
  C6. The tab bar is rendered before the screen container exactly when the option
  \<open>tabBarPosition\<close> of the focused route (default bottom) is top, and after it otherwise.
  The style of the root has flex direction row-reverse for left, row for right, and
  there is no style for top and bottom.
\<close>

theorem tab_bar_order_and_root_style:
  assumes "wellformed env p" and "useHooks env p hk = Inr h"
    and "descriptors p (key (routes (state p) ! index (state p))) = Some fd"
    and "position = nullish_default (tabBarPosition (descriptor_options fd)) PositionBottom"
  shows "\<exists>h' v tabBar container. BottomTabView env p hk = Inr (h', v)
    \<and> is_tab_bar tabBar \<and> \<not> is_tab_bar container
    \<and> rendered_children v =
         (if position = PositionTop then [tabBar, container] else [container, tabBar])
    \<and> root_style v =
         (case position of
            PositionLeft \<Rightarrow> Some \<lparr>flexDirection = RowReverse\<rparr>
          | PositionRight \<Rightarrow> Some \<lparr>flexDirection = Row\<rparr>
          | PositionTop \<Rightarrow> None
          | PositionBottom \<Rightarrow> None)"
proof (rule render_wellformed [OF assms(1,2)])
  fix v and fd' :: descriptor and screens
  assume r: "BottomTabView env p hk =
       Inr (setLoadedIfAbsent (key (routes (state p) ! index (state p))) h, v)"
    and fd': "descriptors p (key (routes (state p) ! index (state p))) = Some fd'"
    and st: "root_style v =
       (if position_of (descriptor_options fd') = PositionLeft then Some styles_left
        else if position_of (descriptor_options fd') = PositionRight then Some styles_right
        else None)"
    and ch: "children v =
       [if position_of (descriptor_options fd') = PositionTop
        then Some (HeightCallbackProvider SetTabBarHeight (renderTabBar env p)) else None,
        Some (MaybeScreenContainer (detachInactive env p)
                (\<not> (\<exists>r \<in> set (routes (state p)).
                       \<exists>d. descriptors p (key r) = Some d \<and> hasAnimation (descriptor_options d)))
                screens),
        if position_of (descriptor_options fd') \<noteq> PositionTop
        then Some (HeightCallbackProvider SetTabBarHeight (renderTabBar env p)) else None]"
  let ?tb = "HeightCallbackProvider SetTabBarHeight (renderTabBar env p)"
  let ?c = "MaybeScreenContainer (detachInactive env p)
                (\<not> (\<exists>r \<in> set (routes (state p)).
                       \<exists>d. descriptors p (key r) = Some d \<and> hasAnimation (descriptor_options d)))
                screens"
  from fd' assms(3) have eq: "fd' = fd" by simp
  with assms(4) have pos: "position_of (descriptor_options fd') = position"
    by (simp add: position_of_def)
  have order: "rendered_children v = (if position = PositionTop then [?tb, ?c] else [?c, ?tb])"
    by (simp add: rendered_children_def ch pos List.map_filter_simps)
  have style: "root_style v =
         (case position of
            PositionLeft \<Rightarrow> Some \<lparr>flexDirection = RowReverse\<rparr>
          | PositionRight \<Rightarrow> Some \<lparr>flexDirection = Row\<rparr>
          | PositionTop \<Rightarrow> None
          | PositionBottom \<Rightarrow> None)"
    by (cases position) (simp_all add: st pos styles_left_def styles_right_def)
  have "is_tab_bar ?tb" "\<not> is_tab_bar ?c" by simp_all
  with r order style show ?thesis by blast
qed

theorem tab_bar_order_and_root_style_witness:
  "wellformed example_env (example_props (Some PositionLeft) 0)
   \<and> useHooks example_env (example_props (Some PositionLeft) 0) (Some example_hooks)
       = Inr example_hooks
   \<and> (\<exists>h' v tabBar container.
        BottomTabView example_env (example_props (Some PositionLeft) 0) (Some example_hooks)
          = Inr (h', v)
        \<and> is_tab_bar tabBar \<and> \<not> is_tab_bar container
        \<and> rendered_children v = [container, tabBar]
        \<and> root_style v = Some \<lparr>flexDirection = RowReverse\<rparr>)"
proof -
  let ?p = "example_props (Some PositionLeft) 0"
  have wf: "wellformed example_env ?p"
    by (simp add: example_wellformed example_routes_def)
  note hk = example_useHooks [of "Some PositionLeft" 0]
  have fd: "descriptors ?p (key (routes (state ?p) ! index (state ?p))) =
      Some \<lparr>descriptor_options =
              default_options\<lparr>animation := Some Fade, tabBarPosition := Some PositionLeft\<rparr>,
            descriptor_route = \<lparr>key = ''TabStack-1'', name = ''TabStack''\<rparr>\<rparr>"
    by (simp add: example_defs)
  have pos: "PositionLeft =
      nullish_default
        (tabBarPosition (descriptor_options
           \<lparr>descriptor_options =
              default_options\<lparr>animation := Some Fade, tabBarPosition := Some PositionLeft\<rparr>,
            descriptor_route = \<lparr>key = ''TabStack-1'', name = ''TabStack''\<rparr>\<rparr>))
        PositionBottom"
    by (simp add: nullish_default_def)
  from tab_bar_order_and_root_style [OF wf hk fd pos] wf hk show ?thesis
    by simp
qed

text \<open>
  C7. Every mounted screen receives through \<open>BottomTabBarHeightContext\<close> the state
  \<open>tabBarHeight\<close> when the tab bar position is bottom and 0 for any other position. The
  state starts as the result of \<open>getTabBarHeight\<close> on the initial frame and insets, the
  tab bar is given \<open>setTabBarHeight\<close> through \<open>BottomTabBarHeightCallbackContext\<close>, and
  after a call of the setter the next render hands the new height to the screens.
\<close>

theorem tab_bar_height_context:
  assumes "wellformed env p" and "useHooks env p hk = Inr h"
    and "descriptors p (key (routes (state p) ! index (state p))) = Some fd"
    and "position = nullish_default (tabBarPosition (descriptor_options fd)) PositionBottom"
  shows "\<exists>h' v. BottomTabView env p hk = Inr (h', v)
    \<and> (\<forall>i < length (routes (state p)). \<forall>s. screens_of v ! i = Some s \<longrightarrow>
          heightContext s = (if position = PositionBottom then tabBarHeight h else 0))
    \<and> tabBarHeight h' = tabBarHeight h
    \<and> map fst (tab_bars_of v) = [SetTabBarHeight]
    \<and> (hk = None \<longrightarrow>
          tabBarHeight h =
            getTabBarHeight env
              \<lparr>arg_state = state p,
               arg_descriptors = descriptors p,
               arg_dimensions = frame (initialMetrics env),
               arg_layout =
                 \<lparr>layout_width = layout_width (frame (initialMetrics env)),
                  layout_height = 0\<rparr>,
               arg_insets =
                 (\<lambda>s. Some (Some (metrics_insets (initialMetrics env) s)))
                   ++ (case safeAreaInsets p of None \<Rightarrow> Map.empty | Some m \<Rightarrow> m),
               arg_style = tabBarStyle (descriptor_options fd)\<rparr>)
    \<and> step env h (SetTabBarHeightCalled x) = Inr (h\<lparr>tabBarHeight := x\<rparr>)
    \<and> (\<exists>h2 v2. BottomTabView env p (Some (h\<lparr>tabBarHeight := x\<rparr>)) = Inr (h2, v2)
          \<and> (\<forall>i < length (routes (state p)). \<forall>s. screens_of v2 ! i = Some s \<longrightarrow>
                heightContext s = (if position = PositionBottom then x else 0)))"
proof -
  from assms(4) have pos: "position_of (descriptor_options fd) = position"
    by (simp add: position_of_def)
  from render_height_and_tab_bar [OF assms(1,2,3)] pos obtain h' v where
    r: "BottomTabView env p hk = Inr (h', v)"
    and keep: "tabBarHeight h' = tabBarHeight h"
    and ht: "\<forall>i < length (routes (state p)). \<forall>s. screens_of v ! i = Some s \<longrightarrow>
          heightContext s = (if position = PositionBottom then tabBarHeight h else 0)"
    and tb: "tab_bars_of v = [(SetTabBarHeight, renderTabBar env p)]"
    by auto
  from render_height_and_tab_bar [OF assms(1) useHooks_Some assms(3), of "h\<lparr>tabBarHeight := x\<rparr>"] pos
  have later: "\<exists>h2 v2. BottomTabView env p (Some (h\<lparr>tabBarHeight := x\<rparr>)) = Inr (h2, v2)
          \<and> (\<forall>i < length (routes (state p)). \<forall>s. screens_of v2 ! i = Some s \<longrightarrow>
                heightContext s = (if position = PositionBottom then x else 0))"
    by auto
  have mount: "hk = None \<longrightarrow>
          tabBarHeight h =
            getTabBarHeight env
              \<lparr>arg_state = state p,
               arg_descriptors = descriptors p,
               arg_dimensions = frame (initialMetrics env),
               arg_layout =
                 \<lparr>layout_width = layout_width (frame (initialMetrics env)),
                  layout_height = 0\<rparr>,
               arg_insets =
                 (\<lambda>s. Some (Some (metrics_insets (initialMetrics env) s)))
                   ++ (case safeAreaInsets p of None \<Rightarrow> Map.empty | Some m \<Rightarrow> m),
               arg_style = tabBarStyle (descriptor_options fd)\<rparr>"
    using useHooks_mount_height [OF _ assms(3)] assms(2) by blast
  have setter: "step env h (SetTabBarHeightCalled x) = Inr (h\<lparr>tabBarHeight := x\<rparr>)"
    by simp
  from tb have tbm: "map fst (tab_bars_of v) = [SetTabBarHeight]" by simp
  show ?thesis
    by (rule exI [of _ h'], rule exI [of _ v]) (intro conjI r ht keep tbm mount setter later)
qed

theorem tab_bar_height_context_witness:
  "wellformed example_env (example_props None 2)
   \<and> useHooks example_env (example_props None 2) None =
       Inr \<lparr>loaded = [''TabContacts-3''], previousRouteKeyRef = ''TabContacts-3'',
            tabBarHeight = 69\<rparr>
   \<and> (\<exists>h' v s. BottomTabView example_env (example_props None 2) None = Inr (h', v)
        \<and> screens_of v ! 2 = Some s \<and> heightContext s = 69
        \<and> map fst (tab_bars_of v) = [SetTabBarHeight])
   \<and> (\<exists>h2 v2 s2.
        BottomTabView example_env (example_props None 2)
          (Some \<lparr>loaded = [''TabContacts-3''], previousRouteKeyRef = ''TabContacts-3'',
                 tabBarHeight = 83\<rparr>) = Inr (h2, v2)
        \<and> screens_of v2 ! 2 = Some s2 \<and> heightContext s2 = 83)"
proof -
  let ?p = "example_props None 2"
  let ?h = "\<lparr>loaded = [''TabContacts-3''], previousRouteKeyRef = ''TabContacts-3'',
            tabBarHeight = 69\<rparr>"
  let ?fd = "\<lparr>descriptor_options = default_options\<lparr>animation := Some NoAnimation, tabBarPosition := None\<rparr>,
         descriptor_route = \<lparr>key = ''TabContacts-3'', name = ''TabContacts''\<rparr>\<rparr>"
  have wf: "wellformed example_env ?p"
    by (simp add: example_wellformed example_routes_def)
  note hk = example_mount_contacts
  have fd: "descriptors ?p (key (routes (state ?p) ! index (state ?p))) = Some ?fd"
    by (simp add: example_defs)
  have pos: "PositionBottom =
      nullish_default (tabBarPosition (descriptor_options ?fd)) PositionBottom"
    by (simp add: nullish_default_def default_options_def)
  from tab_bar_height_context [OF wf hk fd pos, of 83] obtain h' v h2 v2 where
    r: "BottomTabView example_env ?p None = Inr (h', v)"
    and ht: "\<forall>i < length (routes (state ?p)). \<forall>s. screens_of v ! i = Some s \<longrightarrow>
          heightContext s = (if PositionBottom = PositionBottom then tabBarHeight ?h else 0)"
    and tb: "map fst (tab_bars_of v) = [SetTabBarHeight]"
    and r2: "BottomTabView example_env ?p (Some (?h\<lparr>tabBarHeight := 83\<rparr>)) = Inr (h2, v2)"
    and ht2: "\<forall>i < length (routes (state ?p)). \<forall>s. screens_of v2 ! i = Some s \<longrightarrow>
          heightContext s = (if PositionBottom = PositionBottom then 83 else 0)"
    by (elim exE conjE) (rule that)
  from focused_screen_mounted [OF wf hk r] obtain s where s: "screens_of v ! 2 = Some s"
    by (auto simp: example_props_def)
  from focused_screen_mounted [OF wf useHooks_Some r2] obtain s2 where
    s2: "screens_of v2 ! 2 = Some s2"
    by (auto simp: example_props_def)
  from ht [rule_format, of 2 s] s have a: "heightContext s = 69"
    by (simp add: example_props_def example_routes_def)
  from ht2 [rule_format, of 2 s2] s2 have b: "heightContext s2 = 83"
    by (simp add: example_props_def example_routes_def)
  from r2 have r2': "BottomTabView example_env ?p
          (Some \<lparr>loaded = [''TabContacts-3''], previousRouteKeyRef = ''TabContacts-3'',
                 tabBarHeight = 83\<rparr>) = Inr (h2, v2)" by simp
  show ?thesis
    using wf hk r s a tb r2' s2 b by auto
qed

text \<open>
  C8. Each of the four insets handed to the tab bar is the value of the prop
  \<open>safeAreaInsets\<close> for that side if it is defined, else the value of the safe area
  context for that side if it is defined, else 0.
\<close>

theorem tab_bar_insets_precedence:
  assumes "wellformed env p" and "useHooks env p hk = Inr h"
  shows "\<exists>h' v tb. BottomTabView env p hk = Inr (h', v)
    \<and> map snd (tab_bars_of v) = [tb]
    \<and> (\<forall>s.
         (\<forall>m x. safeAreaInsets p = Some m \<and> m s = Some (Some x) \<longrightarrow>
            inset_at (insets tb) s = x)
         \<and> (safeAreaInsets p = None
              \<or> (\<exists>m. safeAreaInsets p = Some m \<and> (m s = None \<or> m s = Some None)) \<longrightarrow>
            (\<forall>c y. safeAreaInsetsContext env = Some c \<and> c s = Some y \<longrightarrow>
               inset_at (insets tb) s = y)
            \<and> (safeAreaInsetsContext env = None
                 \<or> (\<exists>c. safeAreaInsetsContext env = Some c \<and> c s = None) \<longrightarrow>
               inset_at (insets tb) s = 0)))"
proof -
  from wellformed_focused [OF assms(1)] wellformed_options [OF assms(1)] obtain fd where
    fd: "descriptors p (key (routes (state p) ! index (state p))) = Some fd" by blast
  from render_height_and_tab_bar [OF assms fd] obtain h' v where
    r: "BottomTabView env p hk = Inr (h', v)"
    and tb: "tab_bars_of v = [(SetTabBarHeight, renderTabBar env p)]"
    by auto
  have ins: "\<forall>s.
         (\<forall>m x. safeAreaInsets p = Some m \<and> m s = Some (Some x) \<longrightarrow>
            inset_at (insets (renderTabBar env p)) s = x)
         \<and> (safeAreaInsets p = None
              \<or> (\<exists>m. safeAreaInsets p = Some m \<and> (m s = None \<or> m s = Some None)) \<longrightarrow>
            (\<forall>c y. safeAreaInsetsContext env = Some c \<and> c s = Some y \<longrightarrow>
               inset_at (insets (renderTabBar env p)) s = y)
            \<and> (safeAreaInsetsContext env = None
                 \<or> (\<exists>c. safeAreaInsetsContext env = Some c \<and> c s = None) \<longrightarrow>
               inset_at (insets (renderTabBar env p)) s = 0))"
    by (auto simp: renderTabBar_inset nullish_default_def nullish_def prop_inset_def
        context_inset_def)
  from tb have tbm: "map snd (tab_bars_of v) = [renderTabBar env p]" by simp
  show ?thesis
    by (rule exI [of _ h'], rule exI [of _ v], rule exI [of _ "renderTabBar env p"])
       (intro conjI r tbm ins)
qed

theorem tab_bar_insets_precedence_witness:
  "wellformed example_env (example_props None 0)
   \<and> useHooks example_env (example_props None 0) (Some example_hooks) = Inr example_hooks
   \<and> (\<exists>h' v tb. BottomTabView example_env (example_props None 0) (Some example_hooks) = Inr (h', v)
        \<and> map snd (tab_bars_of v) = [tb]
        \<and> inset_at (insets tb) SideBottom = 20
        \<and> inset_at (insets tb) SideTop = 47
        \<and> inset_at (insets tb) SideRight = 0
        \<and> inset_at (insets tb) SideLeft = 0)"
proof -
  let ?p = "example_props None 0"
  have wf: "wellformed example_env ?p"
    by (simp add: example_wellformed example_routes_def)
  note hk = example_useHooks [of None 0]
  from tab_bar_insets_precedence [OF wf hk] obtain h' v tb where
    r: "BottomTabView example_env ?p (Some example_hooks) = Inr (h', v)"
    and tb: "map snd (tab_bars_of v) = [tb]"
    and a: "\<forall>s.
         (\<forall>m x. safeAreaInsets ?p = Some m \<and> m s = Some (Some x) \<longrightarrow>
            inset_at (insets tb) s = x)
         \<and> (safeAreaInsets ?p = None
              \<or> (\<exists>m. safeAreaInsets ?p = Some m \<and> (m s = None \<or> m s = Some None)) \<longrightarrow>
            (\<forall>c y. safeAreaInsetsContext example_env = Some c \<and> c s = Some y \<longrightarrow>
               inset_at (insets tb) s = y)
            \<and> (safeAreaInsetsContext example_env = None
                 \<or> (\<exists>c. safeAreaInsetsContext example_env = Some c \<and> c s = None) \<longrightarrow>
               inset_at (insets tb) s = 0))"
    by (elim exE conjE) (rule that)
  from a [rule_format, of SideBottom] have b: "inset_at (insets tb) SideBottom = 20"
    by (simp add: example_props_def)
  from a [rule_format, of SideTop] have t: "inset_at (insets tb) SideTop = 47"
    by (simp add: example_props_def example_env_def)
  from a [rule_format, of SideRight] have ri: "inset_at (insets tb) SideRight = 0"
    by (simp add: example_props_def example_env_def)
  from a [rule_format, of SideLeft] have l: "inset_at (insets tb) SideLeft = 0"
    by (simp add: example_props_def example_env_def)
  show ?thesis using wf hk r tb b t ri l by auto
qed

text \<open>
  C4. The effect starts one animation per route. The animation of a route drives the
  route's animated value to 0 if its index is \<open>state.index\<close>, to 1 if its index is greater
  and to -1 if it is less. A route whose key is neither the key in \<open>previousRouteKeyRef\<close>
  nor the focused key is animated with the spec of \<open>none\<close>, timing with duration 0; with
  distinct route keys these are the routes at another index than the focused one whose
  key is not the previous one.
\<close>

theorem animateToIndex_targets:
  assumes "wellformed env p"
  shows "\<exists>h' animations. effect env p h = Inr (h', animations)
    \<and> previousRouteKeyRef h' = key (routes (state p) ! index (state p))
    \<and> length animations = length (routes (state p))
    \<and> (\<forall>i < length (routes (state p)).
         toValue (animations ! i) =
           (if i = index (state p) then 0 else if i > index (state p) then 1 else - 1)
         \<and> anim_value (animations ! i) =
             useAnimatedHashMap env (state p) (key (routes (state p) ! i))
         \<and> useNativeDriver (animations ! i)
         \<and> (key (routes (state p) ! i) \<noteq> previousRouteKeyRef h
              \<and> key (routes (state p) ! i) \<noteq> key (routes (state p) ! index (state p))
            \<longrightarrow> anim_driver (animations ! i) = Timing
                \<and> anim_config (animations ! i) = [(''duration'', 0)])
         \<and> (distinct (map key (routes (state p)))
              \<and> key (routes (state p) ! i) \<noteq> previousRouteKeyRef h
              \<and> i \<noteq> index (state p)
            \<longrightarrow> anim_driver (animations ! i) = Timing
                \<and> anim_config (animations ! i) = [(''duration'', 0)]))"
proof (rule effect_wellformed [OF assms, of h])
  fix animations
  assume e: "effect env p h =
       Inr (h\<lparr>previousRouteKeyRef := key (routes (state p) ! index (state p))\<rparr>, animations)"
    and len: "length animations = length (routes (state p))"
    and nth: "\<And>i. i < length (routes (state p)) \<Longrightarrow>
       animateRoute env p (previousRouteKeyRef h) (key (routes (state p) ! index (state p)))
         (useAnimatedHashMap env (state p)) (routes (state p) ! i) i = Inr (animations ! i)"
  from assms have ix: "index (state p) < length (routes (state p))"
    by (simp add: wellformed_def)
  have each: "toValue (animations ! i) =
           (if i = index (state p) then 0 else if i > index (state p) then 1 else - 1)
         \<and> anim_value (animations ! i) =
             useAnimatedHashMap env (state p) (key (routes (state p) ! i))
         \<and> useNativeDriver (animations ! i)
         \<and> (key (routes (state p) ! i) \<noteq> previousRouteKeyRef h
              \<and> key (routes (state p) ! i) \<noteq> key (routes (state p) ! index (state p))
            \<longrightarrow> anim_driver (animations ! i) = Timing
                \<and> anim_config (animations ! i) = [(''duration'', 0)])
         \<and> (distinct (map key (routes (state p)))
              \<and> key (routes (state p) ! i) \<noteq> previousRouteKeyRef h
              \<and> i \<noteq> index (state p)
            \<longrightarrow> anim_driver (animations ! i) = Timing
                \<and> anim_config (animations ! i) = [(''duration'', 0)])"
    if i: "i < length (routes (state p))" for i
  proof -
    note a = animateRoute_Inr [OF nth [OF i]]
    have "key (routes (state p) ! i) \<noteq> key (routes (state p) ! index (state p))"
      if "distinct (map key (routes (state p)))" and "i \<noteq> index (state p)"
      using that i ix nth_eq_iff_index_eq [of "map key (routes (state p))" i "index (state p)"]
      by simp
    with a(1,2,3) a(4) show ?thesis by blast
  qed
  show ?thesis
    by (rule exI [of _ "h\<lparr>previousRouteKeyRef := key (routes (state p) ! index (state p))\<rparr>"],
        rule exI [of _ animations])
       (simp add: e len each)
qed

theorem animateToIndex_targets_witness:
  "wellformed example_env (example_props None 1)
   \<and> (\<exists>h' animations.
        effect example_env (example_props None 1) example_hooks = Inr (h', animations)
        \<and> previousRouteKeyRef h' = ''TabChat-2''
        \<and> length animations = 4
        \<and> toValue (animations ! 0) = - 1
        \<and> toValue (animations ! 1) = 0
        \<and> toValue (animations ! 2) = 1
        \<and> toValue (animations ! 3) = 1
        \<and> anim_driver (animations ! 3) = Timing
        \<and> anim_config (animations ! 3) = [(''duration'', 0)])"
proof -
  let ?p = "example_props None 1"
  have wf: "wellformed example_env ?p"
    by (simp add: example_wellformed example_routes_def)
  from animateToIndex_targets [OF wf, of example_hooks] obtain h' animations where
    e: "effect example_env ?p example_hooks = Inr (h', animations)"
    and ref: "previousRouteKeyRef h' = key (routes (state ?p) ! index (state ?p))"
    and len: "length animations = length (routes (state ?p))"
    and a: "\<forall>i < length (routes (state ?p)).
         toValue (animations ! i) =
           (if i = index (state ?p) then 0 else if i > index (state ?p) then 1 else - 1)
         \<and> anim_value (animations ! i) =
             useAnimatedHashMap example_env (state ?p) (key (routes (state ?p) ! i))
         \<and> useNativeDriver (animations ! i)
         \<and> (key (routes (state ?p) ! i) \<noteq> previousRouteKeyRef example_hooks
              \<and> key (routes (state ?p) ! i) \<noteq> key (routes (state ?p) ! index (state ?p))
            \<longrightarrow> anim_driver (animations ! i) = Timing
                \<and> anim_config (animations ! i) = [(''duration'', 0)])
         \<and> (distinct (map key (routes (state ?p)))
              \<and> key (routes (state ?p) ! i) \<noteq> previousRouteKeyRef example_hooks
              \<and> i \<noteq> index (state ?p)
            \<longrightarrow> anim_driver (animations ! i) = Timing
                \<and> anim_config (animations ! i) = [(''duration'', 0)])"
    by (elim exE conjE) (rule that)
  from ref have 1: "previousRouteKeyRef h' = ''TabChat-2''"
    by (simp add: example_props_def example_routes_def)
  from len have 2: "length animations = 4"
    by (simp add: example_props_def example_routes_def)
  from a [rule_format, of 0] have 3: "toValue (animations ! 0) = - 1"
    by (simp add: example_props_def example_routes_def)
  from a [rule_format, of 1] have 4: "toValue (animations ! 1) = 0"
    by (simp add: example_props_def example_routes_def)
  from a [rule_format, of 2] have 5: "toValue (animations ! 2) = 1"
    by (simp add: example_props_def example_routes_def)
  from a [rule_format, of 3] have 6: "toValue (animations ! 3) = 1
      \<and> anim_driver (animations ! 3) = Timing
      \<and> anim_config (animations ! 3) = [(''duration'', 0)]"
    by (simp add: example_props_def example_routes_def example_hooks_def)
  show ?thesis using wf e 1 2 3 4 5 6 by auto
qed

text \<open>
  C2. The list \<open>loaded\<close> starts as the focused route key alone, a render appends the
  focused key if it is absent, and whatever happens to the mounted component the list
  only grows at its end, without duplicates. So a route whose key is loaded, and whose
  option \<open>unmountOnBlur\<close> is not true, is mounted in every later render of props it belongs
  to, wherever the focus is.
\<close>

theorem loaded_monotone:
  "(\<forall>h0. useHooks env p None = Inr h0 \<longrightarrow>
      (\<exists>k. focusedRouteKey (state p) = Inr k \<and> loaded h0 = [k]))
   \<and> (\<forall>h1 v. BottomTabView env p (Some h) = Inr (h1, v) \<longrightarrow>
        (\<exists>k. focusedRouteKey (state p) = Inr k
            \<and> loaded h1 = (if k \<in> set (loaded h) then loaded h else loaded h @ [k])))
   \<and> (\<forall>h2. run env h evs = Inr h2 \<longrightarrow>
        prefix (loaded h) (loaded h2)
        \<and> set (loaded h) \<subseteq> set (loaded h2)
        \<and> (distinct (loaded h) \<longrightarrow> distinct (loaded h2))
        \<and> (\<forall>q i d. wellformed env q
               \<and> i < length (routes (state q))
               \<and> key (routes (state q) ! i) \<in> set (loaded h)
               \<and> descriptors q (key (routes (state q) ! i)) = Some d
               \<and> unmountOnBlur (descriptor_options d) \<noteq> Some True
             \<longrightarrow> (\<exists>h3 v s. BottomTabView env q (Some h2) = Inr (h3, v)
                    \<and> screens_of v ! i = Some s
                    \<and> screen_key s = key (routes (state q) ! i))))"
proof (intro conjI allI impI)
  fix h0 assume "useHooks env p None = Inr h0"
  then show "\<exists>k. focusedRouteKey (state p) = Inr k \<and> loaded h0 = [k]"
    by (auto simp: useHooks_def split: sum.splits)
next
  fix h1 v assume "BottomTabView env p (Some h) = Inr (h1, v)"
  then show "\<exists>k. focusedRouteKey (state p) = Inr k
            \<and> loaded h1 = (if k \<in> set (loaded h) then loaded h else loaded h @ [k])"
    by (rule render_loaded)
next
  fix h2 assume r: "run env h evs = Inr h2"
  from run_loaded [OF r] show "prefix (loaded h) (loaded h2)" by simp
next
  fix h2 assume r: "run env h evs = Inr h2"
  from run_loaded [OF r] show "set (loaded h) \<subseteq> set (loaded h2)"
    by (simp add: set_mono_prefix)
next
  fix h2 assume r: "run env h evs = Inr h2" and "distinct (loaded h)"
  with run_loaded [OF r] show "distinct (loaded h2)" by simp
next
  fix h2 q i d
  assume r: "run env h evs = Inr h2"
    and a: "wellformed env q
               \<and> i < length (routes (state q))
               \<and> key (routes (state q) ! i) \<in> set (loaded h)
               \<and> descriptors q (key (routes (state q) ! i)) = Some d
               \<and> unmountOnBlur (descriptor_options d) \<noteq> Some True"
  from run_loaded [OF r] have "set (loaded h) \<subseteq> set (loaded h2)"
    by (simp add: set_mono_prefix)
  with a have "key (routes (state q) ! i) \<in> set (loaded h2)" by blast
  with a show "\<exists>h3 v s. BottomTabView env q (Some h2) = Inr (h3, v)
                    \<and> screens_of v ! i = Some s
                    \<and> screen_key s = key (routes (state q) ! i)"
    using loaded_screen_mounted by blast
qed

theorem loaded_monotone_witness:
  "useHooks example_env (example_props None 0) None = Inr example_hooks
   \<and> loaded example_hooks = [''TabStack-1'']
   \<and> run example_env example_hooks
        [Render (example_props None 2), RunEffect (example_props None 2),
         SetTabBarHeightCalled 83, Render (example_props None 3)] =
      Inr \<lparr>loaded = [''TabStack-1'', ''TabContacts-3'', ''TabAlbums-4''],
           previousRouteKeyRef = ''TabContacts-3'', tabBarHeight = 83\<rparr>
   \<and> prefix [''TabStack-1''] [''TabStack-1'', ''TabContacts-3'', ''TabAlbums-4'']
   \<and> (\<exists>h3 v s.
        BottomTabView example_env (example_props None 3)
          (Some \<lparr>loaded = [''TabStack-1'', ''TabContacts-3'', ''TabAlbums-4''],
                 previousRouteKeyRef = ''TabContacts-3'', tabBarHeight = 83\<rparr>) = Inr (h3, v)
        \<and> screens_of v ! 0 = Some s \<and> screen_key s = ''TabStack-1'')"
proof -
  let ?evs = "[Render (example_props None 2), RunEffect (example_props None 2),
         SetTabBarHeightCalled 83, Render (example_props None 3)]"
  let ?h2 = "\<lparr>loaded = [''TabStack-1'', ''TabContacts-3'', ''TabAlbums-4''],
           previousRouteKeyRef = ''TabContacts-3'', tabBarHeight = 83\<rparr>"
  let ?q = "example_props None 3"
  let ?d = "\<lparr>descriptor_options = default_options\<lparr>animation := Some Fade, tabBarPosition := None\<rparr>,
         descriptor_route = \<lparr>key = ''TabStack-1'', name = ''TabStack''\<rparr>\<rparr>"
  note m = loaded_monotone [of example_env "example_props None 0" example_hooks ?evs]
  from m have mount: "\<exists>k. focusedRouteKey (state (example_props None 0)) = Inr k
      \<and> loaded example_hooks = [k]"
    using example_mount_stack by blast
  then have 1: "loaded example_hooks = [''TabStack-1'']"
    by (simp add: example_hooks_def)
  from m example_run have run: "prefix (loaded example_hooks) (loaded ?h2)
     \<and> (\<forall>q i d. wellformed example_env q
               \<and> i < length (routes (state q))
               \<and> key (routes (state q) ! i) \<in> set (loaded example_hooks)
               \<and> descriptors q (key (routes (state q) ! i)) = Some d
               \<and> unmountOnBlur (descriptor_options d) \<noteq> Some True
             \<longrightarrow> (\<exists>h3 v s. BottomTabView example_env q (Some ?h2) = Inr (h3, v)
                    \<and> screens_of v ! i = Some s
                    \<and> screen_key s = key (routes (state q) ! i)))"
    by blast
  then have 2: "prefix [''TabStack-1''] [''TabStack-1'', ''TabContacts-3'', ''TabAlbums-4'']"
    by (simp add: example_hooks_def)
  have wf: "wellformed example_env ?q"
    by (simp add: example_wellformed example_routes_def)
  have pre: "wellformed example_env ?q
               \<and> 0 < length (routes (state ?q))
               \<and> key (routes (state ?q) ! 0) \<in> set (loaded example_hooks)
               \<and> descriptors ?q (key (routes (state ?q) ! 0)) = Some ?d
               \<and> unmountOnBlur (descriptor_options ?d) \<noteq> Some True"
    using wf by (simp add: example_defs)
  from run have "\<exists>h3 v s. BottomTabView example_env ?q (Some ?h2) = Inr (h3, v)
                    \<and> screens_of v ! 0 = Some s
                    \<and> screen_key s = key (routes (state ?q) ! 0)"
    using pre by blast
  then have 3: "\<exists>h3 v s. BottomTabView example_env ?q (Some ?h2) = Inr (h3, v)
                    \<and> screens_of v ! 0 = Some s \<and> screen_key s = ''TabStack-1''"
    by (simp add: example_props_def example_routes_def)
  from example_mount_stack 1 example_run 2 3 show ?thesis by blast
qed

end
